theory Spec2Isabelle
  imports Main "HOL-Library.AList" "HOL-Library.Word"
begin

section \<open>Values shared by the supervisor and the relay\<close>

text \<open>
  A JavaScript string is modelled as a \<^typ>\<open>string\<close>, one \<^typ>\<open>char\<close> for each
  code unit (so the texts considered are those whose code units fit a \<^typ>\<open>char\<close>);
  \<open>length\<close> is then the \<^verbatim>\<open>.length\<close> of the source and \<open>take\<close> its
  \<^verbatim>\<open>.slice(0, n)\<close>.

  A thrown value is an error object with its message. \<open>TypeError\<close> is what the
  engine itself throws (reading a property of \<^verbatim>\<open>null\<close> or \<^verbatim>\<open>undefined\<close>,
  calling what is not a function, creating a property on a primitive in strict code),
  \<open>SyntaxError\<close> what \<^verbatim>\<open>JSON.parse\<close> throws; \<open>Error\<close> is
  \<^verbatim>\<open>new Error(msg)\<close> of the source, or whatever the hosting runtime rejects a
  promise with.
\<close>

datatype js_error = Error string | TypeError string | SyntaxError string

text \<open>
  \<^verbatim>\<open>String.prototype.includes\<close>: the needle occurs somewhere in the haystack.
  \<open>starts_with s sub\<close> says that \<open>sub\<close> is an initial segment of \<open>s\<close>.
\<close>

fun starts_with :: "string \<Rightarrow> string \<Rightarrow> bool" where
  "starts_with s [] = True"
| "starts_with [] (c # sub) = False"
| "starts_with (d # s) (c # sub) = (d = c \<and> starts_with s sub)"

fun str_includes :: "string \<Rightarrow> string \<Rightarrow> bool" where
  "str_includes [] sub = (sub = [])"
| "str_includes (c # s) sub = (starts_with (c # s) sub \<or> str_includes s sub)"

section \<open>The process supervisor\<close>

subsection \<open>The hosting runtime\<close>

text \<open>
  A process of the sandbox, as the code reads it: \<^verbatim>\<open>proc.id\<close> (here \<open>pid\<close>),
  \<^verbatim>\<open>proc.command\<close>, \<^verbatim>\<open>proc.status\<close>. The status is compared with string
  literals in the source and is kept a string here.
\<close>

record process =
  pid :: string
  command :: string
  status :: string

record logs =
  stdout :: string
  stderr :: string

text \<open>Of the response of \<^verbatim>\<open>containerFetch\<close> the code reads the status; the body is only logged.\<close>

record response =
  http_status :: nat

text \<open>
  The constants of \<^verbatim>\<open>../config\<close>, which is not among the sources, are parameters.
\<close>

record config =
  MOLTBOT_PORT :: nat
  STARTUP_TIMEOUT_MS :: nat

text \<open>
  The sandbox is an external, stateful collaborator. Its state is a type variable
  \<open>'w\<close>, and each of its asynchronous operations is a function that takes the state
  and gives a result, \<open>Inl\<close> for a rejected promise, with the next state.
  \<^verbatim>\<open>mountR2Storage\<close> and \<^verbatim>\<open>buildEnvVars\<close> belong to modules that are not among
  the sources; they are taken as parameters too, the first as one more operation that may
  fail, the second as a pure function of the environment bindings \<open>'e\<close>.
\<close>

record ('w, 'e) sandbox =
  mountR2Storage :: "'e \<Rightarrow> 'w \<Rightarrow> (js_error + bool) \<times> 'w"
  buildEnvVars :: "'e \<Rightarrow> (string \<times> string) list"
  listProcesses :: "'w \<Rightarrow> (js_error + process list) \<times> 'w"
  waitForPort :: "process \<Rightarrow> nat \<Rightarrow> nat \<Rightarrow> 'w \<Rightarrow> (js_error + unit) \<times> 'w"
  containerFetch :: "nat \<Rightarrow> 'w \<Rightarrow> (js_error + response) \<times> 'w"
  kill :: "process \<Rightarrow> 'w \<Rightarrow> (js_error + unit) \<times> 'w"
  startProcess :: "string \<Rightarrow> (string \<times> string) list option \<Rightarrow> 'w \<Rightarrow> (js_error + process) \<times> 'w"
  getLogs :: "process \<Rightarrow> 'w \<Rightarrow> (js_error + logs) \<times> 'w"

text \<open>
  Every call of an operation is recorded, with what it was called on and whether it
  succeeded, so that "the process is killed" and "a launch is attempted" are statements
  about the run. For \<^verbatim>\<open>containerFetch\<close> the event keeps the status of the response,
  for \<^verbatim>\<open>startProcess\<close> the process it gave.
\<close>

datatype event =
    Mounted bool
  | Listed bool
  | WaitedForPort process nat nat bool
  | Fetched nat "nat option"
  | Killed process bool
  | Started string "(string \<times> string) list option" "process option"
  | GotLogs process bool

record 'w run =
  world :: 'w
  trace :: "event list"

type_synonym ('a, 'w) prog = "'w run \<Rightarrow> (js_error + 'a) \<times> 'w run"

definition ok :: "js_error + 'a \<Rightarrow> bool" where
  "ok r = (case r of Inl e \<Rightarrow> False | Inr x \<Rightarrow> True)"

definition call :: "(js_error + 'a \<Rightarrow> event) \<Rightarrow> ('w \<Rightarrow> (js_error + 'a) \<times> 'w) \<Rightarrow> ('a, 'w) prog" where
  "call ev f s = (case f (world s) of (r, w') \<Rightarrow> (r, \<lparr>world = w', trace = trace s @ [ev r]\<rparr>))"

text \<open>Sequencing, \<^verbatim>\<open>throw\<close> and \<^verbatim>\<open>try { ... } catch (e) { ... }\<close>.\<close>

definition return :: "'a \<Rightarrow> ('a, 'w) prog" where
  "return x s = (Inr x, s)"

definition throw :: "js_error \<Rightarrow> ('a, 'w) prog" where
  "throw e s = (Inl e, s)"

definition bind :: "('a, 'w) prog \<Rightarrow> ('a \<Rightarrow> ('b, 'w) prog) \<Rightarrow> ('b, 'w) prog" where
  "bind m f s = (case m s of (Inl e, s') \<Rightarrow> (Inl e, s') | (Inr x, s') \<Rightarrow> f x s')"

definition try_catch :: "('a, 'w) prog \<Rightarrow> (js_error \<Rightarrow> ('a, 'w) prog) \<Rightarrow> ('a, 'w) prog" where
  "try_catch m h s = (case m s of (Inl e, s') \<Rightarrow> h e s' | (Inr x, s') \<Rightarrow> (Inr x, s'))"

text \<open>The operations as the code calls them.\<close>

definition do_mount :: "('w, 'e) sandbox \<Rightarrow> 'e \<Rightarrow> (bool, 'w) prog" where
  "do_mount sb env = call (\<lambda>r. Mounted (ok r)) (mountR2Storage sb env)"

definition do_list :: "('w, 'e) sandbox \<Rightarrow> (process list, 'w) prog" where
  "do_list sb = call (\<lambda>r. Listed (ok r)) (listProcesses sb)"

definition do_wait :: "('w, 'e) sandbox \<Rightarrow> config \<Rightarrow> process \<Rightarrow> (unit, 'w) prog" where
  "do_wait sb cfg p =
     call (\<lambda>r. WaitedForPort p (MOLTBOT_PORT cfg) (STARTUP_TIMEOUT_MS cfg) (ok r))
       (waitForPort sb p (MOLTBOT_PORT cfg) (STARTUP_TIMEOUT_MS cfg))"

definition do_fetch :: "('w, 'e) sandbox \<Rightarrow> config \<Rightarrow> (response, 'w) prog" where
  "do_fetch sb cfg =
     call (\<lambda>r. Fetched (MOLTBOT_PORT cfg) (case r of Inl e \<Rightarrow> None | Inr resp \<Rightarrow> Some (http_status resp)))
       (containerFetch sb (MOLTBOT_PORT cfg))"

definition do_kill :: "('w, 'e) sandbox \<Rightarrow> process \<Rightarrow> (unit, 'w) prog" where
  "do_kill sb p = call (\<lambda>r. Killed p (ok r)) (kill sb p)"

definition do_start :: "('w, 'e) sandbox \<Rightarrow> string \<Rightarrow> (string \<times> string) list option \<Rightarrow> (process, 'w) prog" where
  "do_start sb cmd ev =
     call (\<lambda>r. Started cmd ev (case r of Inl e \<Rightarrow> None | Inr p \<Rightarrow> Some p)) (startProcess sb cmd ev)"

definition do_logs :: "('w, 'e) sandbox \<Rightarrow> process \<Rightarrow> (logs, 'w) prog" where
  "do_logs sb p = call (\<lambda>r. GotLogs p (ok r)) (getLogs sb p)"

subsection \<open>findExistingMoltbotProcess\<close>

text \<open>
  The test of the loop body: the command names the gateway, is not one of the CLI
  invocations, and the status is \<^verbatim>\<open>starting\<close> or \<^verbatim>\<open>running\<close>.
\<close>

definition isGatewayProcess :: "process \<Rightarrow> bool" where
  "isGatewayProcess proc =
     (str_includes (command proc) ''start-moltbot.sh'' \<or> str_includes (command proc) ''openclaw gateway'')"

definition isCliCommand :: "process \<Rightarrow> bool" where
  "isCliCommand proc =
     (str_includes (command proc) ''openclaw devices'' \<or> str_includes (command proc) ''openclaw --version'')"

definition is_live :: "process \<Rightarrow> bool" where
  "is_live proc = (status proc = ''starting'' \<or> status proc = ''running'')"

text \<open>The \<^verbatim>\<open>for\<close> loop over the listed processes, returning at the first match.\<close>

fun find_loop :: "process list \<Rightarrow> process option" where
  "find_loop [] = None"
| "find_loop (proc # rest) =
     (if isGatewayProcess proc \<and> \<not> isCliCommand proc
      then (if is_live proc then Some proc else find_loop rest)
      else find_loop rest)"

text \<open>
  The function never rejects: a failed listing is caught and logged, and the function
  returns \<^verbatim>\<open>null\<close>, here \<open>None\<close>.
\<close>

definition findExistingMoltbotProcess :: "('w, 'e) sandbox \<Rightarrow> 'w run \<Rightarrow> process option \<times> 'w run" where
  "findExistingMoltbotProcess sb s =
     (case do_list sb s of
        (Inr processes, s') \<Rightarrow> (find_loop processes, s')
      | (Inl e, s') \<Rightarrow> (None, s'))"

subsection \<open>ensureMoltbotGateway\<close>

text \<open>
  The overlay probe of an existing process (the inner \<^verbatim>\<open>try\<close> of the first half):
  a response with status 500 is turned into a thrown error. The body of that response is
  read only to be logged, and a failure to read it is caught on the spot; the calls of
  \<^verbatim>\<open>console.log\<close> are left out throughout, except where evaluating their arguments
  can throw.
\<close>

definition probe_existing :: "('w, 'e) sandbox \<Rightarrow> config \<Rightarrow> (unit, 'w) prog" where
  "probe_existing sb cfg =
     bind (do_fetch sb cfg) (\<lambda>healthResp.
       if http_status healthResp = 500
       then throw (Error ''Gateway unreachable via sandbox network (500)'')
       else return ())"

text \<open>A kill whose failure is caught and logged.\<close>

definition kill_quietly :: "('w, 'e) sandbox \<Rightarrow> process \<Rightarrow> (unit, 'w) prog" where
  "kill_quietly sb p = try_catch (do_kill sb p) (\<lambda>killError. return ())"

text \<open>
  The first half, for a process that discovery found. The result \<open>Some p\<close> is the
  \<^verbatim>\<open>return existingProcess\<close>; \<open>None\<close> is falling through to the launch. Neither
  \<^verbatim>\<open>catch\<close> rethrows, so this part never throws.
\<close>

definition check_existing :: "('w, 'e) sandbox \<Rightarrow> config \<Rightarrow> process \<Rightarrow> (process option, 'w) prog" where
  "check_existing sb cfg existingProcess =
     try_catch
       (bind (do_wait sb cfg existingProcess) (\<lambda>_.
          try_catch
            (bind (probe_existing sb cfg) (\<lambda>_. return (Some existingProcess)))
            (\<lambda>fetchErr. bind (kill_quietly sb existingProcess) (\<lambda>_. return None))))
       (\<lambda>e. bind (kill_quietly sb existingProcess) (\<lambda>_. return None))"

text \<open>
  The cleanup of stale gateway processes: the loop kills every listed process whose
  command names the gateway and whose status is \<^verbatim>\<open>running\<close> or \<^verbatim>\<open>starting\<close>;
  a kill that fails ends the loop, and the enclosing \<^verbatim>\<open>try\<close> swallows the error.
\<close>

fun kill_loop :: "('w, 'e) sandbox \<Rightarrow> process list \<Rightarrow> (unit, 'w) prog" where
  "kill_loop sb [] = return ()"
| "kill_loop sb (proc # rest) =
     (if isGatewayProcess proc \<and> (status proc = ''running'' \<or> status proc = ''starting'')
      then bind (do_kill sb proc) (\<lambda>_. kill_loop sb rest)
      else kill_loop sb rest)"

definition kill_stale :: "('w, 'e) sandbox \<Rightarrow> (unit, 'w) prog" where
  "kill_stale sb = try_catch (bind (do_list sb) (kill_loop sb)) (\<lambda>e. return ())"

text \<open>
  Waiting for the new process. In the handler the error that carries the captured
  stderr is thrown inside the inner \<^verbatim>\<open>try\<close>, whose \<^verbatim>\<open>catch (logErr)\<close> then
  throws the outer \<open>e\<close>.
\<close>

definition startup_failed_message :: "logs \<Rightarrow> string" where
  "startup_failed_message lg =
     ''Moltbot gateway failed to start. Stderr: '' @ (if stderr lg \<noteq> [] then stderr lg else ''(empty)'')"

definition wait_ready :: "('w, 'e) sandbox \<Rightarrow> config \<Rightarrow> process \<Rightarrow> (unit, 'w) prog" where
  "wait_ready sb cfg proc =
     try_catch
       (bind (do_wait sb cfg proc) (\<lambda>_.
          bind (do_logs sb proc) (\<lambda>lg. return ())))
       (\<lambda>e.
          try_catch
            (bind (do_logs sb proc) (\<lambda>lg. throw (Error (startup_failed_message lg))))
            (\<lambda>logErr. throw e))"

text \<open>The overlay probe of the new process: every failure becomes one fixed error.\<close>

definition probe_new :: "('w, 'e) sandbox \<Rightarrow> config \<Rightarrow> (unit, 'w) prog" where
  "probe_new sb cfg =
     try_catch
       (bind (do_fetch sb cfg) (\<lambda>healthResp.
          if http_status healthResp = 500
          then throw (Error ''Gateway started but not reachable via sandbox network (500)'')
          else return ()))
       (\<lambda>fetchErr. throw (Error ''Gateway started but not reachable via sandbox network (may be bound to loopback)''))"

text \<open>The second half: cleanup, start, wait, probe, return the new process.\<close>

definition launch :: "('w, 'e) sandbox \<Rightarrow> config \<Rightarrow> 'e \<Rightarrow> (process, 'w) prog" where
  "launch sb cfg env =
     bind (kill_stale sb) (\<lambda>_.
       let envVars = buildEnvVars sb env;
           command = ''/usr/local/bin/start-moltbot.sh''
       in bind (do_start sb command (if length envVars > 0 then Some envVars else None)) (\<lambda>proc.
            bind (wait_ready sb cfg proc) (\<lambda>_.
              bind (probe_new sb cfg) (\<lambda>_. return proc))))"

text \<open>
  The first half of the function: mount, discover and, if a process was found, check it.
  \<open>Some p\<close> is the early \<^verbatim>\<open>return existingProcess\<close>; \<open>None\<close> means that control
  reaches the comment \<^verbatim>\<open>// Start a new Moltbot gateway\<close>.
\<close>

definition discover_and_verify :: "('w, 'e) sandbox \<Rightarrow> config \<Rightarrow> 'e \<Rightarrow> (process option, 'w) prog" where
  "discover_and_verify sb cfg env =
     bind (do_mount sb env) (\<lambda>_. \<lambda>s.
       case findExistingMoltbotProcess sb s of
         (Some existingProcess, s') \<Rightarrow> check_existing sb cfg existingProcess s'
       | (None, s') \<Rightarrow> (Inr None, s'))"

definition ensureMoltbotGateway :: "('w, 'e) sandbox \<Rightarrow> config \<Rightarrow> 'e \<Rightarrow> (process, 'w) prog" where
  "ensureMoltbotGateway sb cfg env =
     bind (discover_and_verify sb cfg env) (\<lambda>found.
       case found of
         Some existingProcess \<Rightarrow> return existingProcess
       | None \<Rightarrow> launch sb cfg env)"

subsection \<open>Vocabulary for statements about a run\<close>

text \<open>A run starts in some state of the sandbox with nothing recorded yet.\<close>

definition fresh :: "'w \<Rightarrow> 'w run" where
  "fresh w = \<lparr>world = w, trace = []\<rparr>"

text \<open>
  The two checks the code makes on a process, in the order in which it makes them: the
  wait for the TCP port succeeds, and then the fetch through the sandbox network
  resolves with a status other than 500.
\<close>

definition reachable_from_overlay :: "('w, 'e) sandbox \<Rightarrow> config \<Rightarrow> process \<Rightarrow> 'w run \<Rightarrow> bool" where
  "reachable_from_overlay sb cfg p s =
     (case do_wait sb cfg p s of
        (Inl e, s') \<Rightarrow> False
      | (Inr u, s') \<Rightarrow>
          (case do_fetch sb cfg s' of
             (Inl e, s'') \<Rightarrow> False
           | (Inr resp, s'') \<Rightarrow> http_status resp \<noteq> 500))"

fun is_start :: "event \<Rightarrow> bool" where
  "is_start (Started cmd ev r) = True"
| "is_start _ = False"

fun is_kill_of :: "process \<Rightarrow> event \<Rightarrow> bool" where
  "is_kill_of p (Killed q k) = (q = p)"
| "is_kill_of p _ = False"

subsection \<open>A scripted sandbox\<close>

text \<open>
  A small sandbox on which the functions above can be run. Its state is a script: the
  processes that a listing shows (or \<open>None\<close>, and the listing fails), the ids of the
  processes whose port opens, the outcomes of the successive fetches (\<open>None\<close> for a
  fetch that fails, as every fetch does once the script is used up) and the captured
  logs (or \<open>None\<close>, and reading them fails). Mounting succeeds, a kill succeeds and
  takes the process off the listing, the new process is \<open>proc_new\<close>, and there are no
  environment variables to pass. In \<open>stubborn_sandbox\<close> every kill fails instead and
  changes nothing; in \<open>startless_sandbox\<close> no process can be started.
\<close>

record script =
  procs :: "process list option"
  open_pids :: "string list"
  fetches :: "nat option list"
  logs_of :: "logs option"

definition demo_sandbox :: "(script, unit) sandbox" where
  "demo_sandbox =
     \<lparr> mountR2Storage = (\<lambda>env w. (Inr True, w)),
       buildEnvVars = (\<lambda>env. []),
       listProcesses = (\<lambda>w. (case procs w of None \<Rightarrow> Inl (Error ''listProcesses failed'') | Some ps \<Rightarrow> Inr ps, w)),
       waitForPort = (\<lambda>p port t w. (if pid p \<in> set (open_pids w) then Inr () else Inl (Error ''timeout''), w)),
       containerFetch = (\<lambda>port w. case fetches w of
           [] \<Rightarrow> (Inl (Error ''fetch failed''), w)
         | r # rs \<Rightarrow> (case r of None \<Rightarrow> Inl (Error ''fetch failed'') | Some st \<Rightarrow> Inr \<lparr>http_status = st\<rparr>,
                      w\<lparr>fetches := rs\<rparr>)),
       kill = (\<lambda>p w. (Inr (), w\<lparr>procs := map_option (filter (\<lambda>q. pid q \<noteq> pid p)) (procs w)\<rparr>)),
       startProcess = (\<lambda>cmd ev w. (Inr \<lparr>pid = ''proc_new'', command = cmd, status = ''starting''\<rparr>, w)),
       getLogs = (\<lambda>p w. (case logs_of w of None \<Rightarrow> Inl (Error ''getLogs failed'') | Some lg \<Rightarrow> Inr lg, w)) \<rparr>"

definition stubborn_sandbox :: "(script, unit) sandbox" where
  "stubborn_sandbox = demo_sandbox\<lparr>kill := (\<lambda>p w. (Inl (Error ''kill failed''), w))\<rparr>"

definition startless_sandbox :: "(script, unit) sandbox" where
  "startless_sandbox = demo_sandbox\<lparr>startProcess := (\<lambda>cmd ev w. (Inl (Error ''start failed''), w))\<rparr>"

definition demo_config :: config where
  "demo_config = \<lparr>MOLTBOT_PORT = 18789, STARTUP_TIMEOUT_MS = 180000\<rparr>"

definition gateway_proc :: process where
  "gateway_proc = \<lparr>pid = ''proc_1'', command = ''/usr/local/bin/start-moltbot.sh'', status = ''running''\<rparr>"

definition cli_proc :: process where
  "cli_proc = \<lparr>pid = ''proc_0'', command = ''openclaw gateway; openclaw devices list'', status = ''running''\<rparr>"

definition new_proc :: process where
  "new_proc = \<lparr>pid = ''proc_new'', command = ''/usr/local/bin/start-moltbot.sh'', status = ''starting''\<rparr>"

definition w_two :: script where
  "w_two = \<lparr>procs = Some [cli_proc, gateway_proc], open_pids = [''proc_1''], fetches = [Some 401], logs_of = None\<rparr>"

definition w_nolist :: script where
  "w_nolist = \<lparr>procs = None, open_pids = [''proc_new''], fetches = [Some 200],
     logs_of = Some \<lparr>stdout = ''ready'', stderr = []\<rparr>\<rparr>"

definition w_loop :: script where
  "w_loop = \<lparr>procs = Some [gateway_proc], open_pids = [''proc_1'', ''proc_new''], fetches = [Some 500, Some 200],
     logs_of = Some \<lparr>stdout = ''ready'', stderr = []\<rparr>\<rparr>"

definition w_dead :: script where
  "w_dead = \<lparr>procs = Some [gateway_proc], open_pids = [''proc_new''], fetches = [Some 200],
     logs_of = Some \<lparr>stdout = ''ready'', stderr = []\<rparr>\<rparr>"

definition w_nofetch :: script where
  "w_nofetch = \<lparr>procs = Some [gateway_proc], open_pids = [''proc_1'', ''proc_new''], fetches = [None, Some 204],
     logs_of = Some \<lparr>stdout = ''ready'', stderr = []\<rparr>\<rparr>"

definition w_nofetch_new :: script where
  "w_nofetch_new = \<lparr>procs = Some [], open_pids = [''proc_new''], fetches = [None],
     logs_of = Some \<lparr>stdout = ''ready'', stderr = []\<rparr>\<rparr>"

definition w_newloop :: script where
  "w_newloop = \<lparr>procs = Some [], open_pids = [''proc_new''], fetches = [Some 500],
     logs_of = Some \<lparr>stdout = ''ready'', stderr = []\<rparr>\<rparr>"

definition w_timeout :: script where
  "w_timeout = \<lparr>procs = Some [], open_pids = [], fetches = [],
     logs_of = Some \<lparr>stdout = [], stderr = ''boom''\<rparr>\<rparr>"

definition w_nologs :: script where
  "w_nologs = \<lparr>procs = Some [], open_pids = [''proc_new''], fetches = [Some 200], logs_of = None\<rparr>"

text \<open>The arguments with which the launch calls \<^verbatim>\<open>startProcess\<close>: the environment, or nothing when it is empty.\<close>

definition launch_args :: "('w, 'e) sandbox \<Rightarrow> 'e \<Rightarrow> (string \<times> string) list option" where
  "launch_args sb env = (if length (buildEnvVars sb env) > 0 then Some (buildEnvVars sb env) else None)"

text \<open>\<open>quiet s s'\<close>: the run from \<open>s\<close> to \<open>s'\<close> only added events, none of them a start.\<close>

definition quiet :: "'w run \<Rightarrow> 'w run \<Rightarrow> bool" where
  "quiet s s' = (\<exists>evs. trace s' = trace s @ evs \<and> (\<forall>e\<in>set evs. \<not> is_start e))"

section \<open>The duplex relay\<close>

subsection \<open>Parsed frames\<close>

text \<open>
  What \<^verbatim>\<open>JSON.parse\<close> gives: \<^verbatim>\<open>null\<close>, a boolean, a number, a string, an
  array or an object. An object is the list of its own properties in the order in which
  \<^verbatim>\<open>JSON.stringify\<close> writes them, each key once. The handlers only ever test a number
  for being zero; numbers are integers here.
\<close>

datatype json =
    JNull
  | JBool bool
  | JNum int
  | JStr string
  | JArr "json list"
  | JObj "(string \<times> json) list"

text \<open>
  \<^verbatim>\<open>JSON.parse\<close> and \<^verbatim>\<open>JSON.stringify\<close> are built into the engine, not part of
  the repository: the handlers take them as a parameter, so that what is proved of a
  handler holds for every parser and printer. \<open>None\<close> is a thrown \<^verbatim>\<open>SyntaxError\<close>.
\<close>

record codec =
  JSON_parse :: "string \<Rightarrow> json option"
  JSON_stringify :: "json \<Rightarrow> string"

text \<open>The \<^verbatim>\<open>event.data\<close> of a message event: a string, or binary data.\<close>

datatype frame = Text string | Binary "8 word list"

text \<open>Truthiness, as \<^verbatim>\<open>||\<close> and \<^verbatim>\<open>if\<close> test it.\<close>

fun truthy :: "json \<Rightarrow> bool" where
  "truthy JNull = False"
| "truthy (JBool b) = b"
| "truthy (JNum n) = (n \<noteq> 0)"
| "truthy (JStr s) = (s \<noteq> [])"
| "truthy (JArr xs) = True"
| "truthy (JObj kvs) = True"

text \<open>
  Reading, writing and deleting a property of a parsed value, for the property names
  the handlers use (\<^verbatim>\<open>type\<close>, \<^verbatim>\<open>method\<close>, \<^verbatim>\<open>params\<close>, \<^verbatim>\<open>auth\<close>,
  \<^verbatim>\<open>error\<close>, \<^verbatim>\<open>message\<close> and the four device fields): none of them is defined
  by a built-in prototype and none is an array index. Reading from \<^verbatim>\<open>null\<close> throws;
  reading from a primitive or an array gives \<^verbatim>\<open>undefined\<close>, here \<open>None\<close>. The
  module is strict code, so writing a property of a primitive throws; a named property
  written to an array is not printed by \<^verbatim>\<open>JSON.stringify\<close> and is never read back.
  Writing an existing key of an object keeps its place, a new key goes last.
\<close>

fun get_prop :: "json \<Rightarrow> string \<Rightarrow> js_error + json option" where
  "get_prop JNull name = Inl (TypeError ''Cannot read properties of null'')"
| "get_prop (JObj kvs) name = Inr (map_of kvs name)"
| "get_prop v name = Inr None"

fun set_prop :: "json \<Rightarrow> string \<Rightarrow> json \<Rightarrow> js_error + json" where
  "set_prop (JObj kvs) name v = Inr (JObj (AList.update name v kvs))"
| "set_prop (JArr xs) name v = Inr (JArr xs)"
| "set_prop JNull name v = Inl (TypeError ''Cannot set properties of null'')"
| "set_prop u name v = Inl (TypeError ''Cannot create property on a primitive'')"

fun delete_prop :: "json \<Rightarrow> string \<Rightarrow> js_error + json" where
  "delete_prop (JObj kvs) name = Inr (JObj (AList.delete name kvs))"
| "delete_prop JNull name = Inl (TypeError ''Cannot convert null to object'')"
| "delete_prop v name = Inr v"

subsection \<open>Client to backend: the \<^verbatim>\<open>message\<close> listener of \<^verbatim>\<open>serverWs\<close>\<close>

text \<open>
  The four \<^verbatim>\<open>delete\<close> statements and the assignment of \<^verbatim>\<open>msg.params.auth\<close>,
  on the value of \<^verbatim>\<open>msg.params\<close>.
\<close>

definition strip_and_inject :: "string \<Rightarrow> json \<Rightarrow> js_error + json" where
  "strip_and_inject gatewayToken params =
     (case delete_prop params ''deviceId'' of Inl e \<Rightarrow> Inl e | Inr p1 \<Rightarrow>
      case delete_prop p1 ''devicePublicKey'' of Inl e \<Rightarrow> Inl e | Inr p2 \<Rightarrow>
      case delete_prop p2 ''signature'' of Inl e \<Rightarrow> Inl e | Inr p3 \<Rightarrow>
      case delete_prop p3 ''device'' of Inl e \<Rightarrow> Inl e | Inr p4 \<Rightarrow>
      set_prop p4 ''auth'' (JObj [(''token'', JStr gatewayToken)]))"

text \<open>
  The body of the \<^verbatim>\<open>if\<close>, up to the message that is sent. Its first statement logs
  \<^verbatim>\<open>JSON.stringify(msg.params).slice(0, 1000)\<close>; \<^verbatim>\<open>JSON.stringify(undefined)\<close> is
  \<^verbatim>\<open>undefined\<close>, so with no \<^verbatim>\<open>params\<close> the call of \<^verbatim>\<open>slice\<close> throws, before
  \<^verbatim>\<open>msg.params = msg.params || {}\<close> is reached.
\<close>

definition connect_body :: "string \<Rightarrow> json \<Rightarrow> js_error + json" where
  "connect_body gatewayToken msg =
     (case get_prop msg ''params'' of
        Inl e \<Rightarrow> Inl e
      | Inr None \<Rightarrow> Inl (TypeError ''Cannot read properties of undefined (reading slice)'')
      | Inr (Some p) \<Rightarrow>
          (let params = (if truthy p then p else JObj []) in
           case set_prop msg ''params'' params of
             Inl e \<Rightarrow> Inl e
           | Inr msg1 \<Rightarrow>
               (case strip_and_inject gatewayToken params of
                  Inl e \<Rightarrow> Inl e
                | Inr params' \<Rightarrow> set_prop msg1 ''params'' params')))"

text \<open>
  The \<^verbatim>\<open>try\<close> block: \<open>Inr (Some msg)\<close> when the rewritten \<open>msg\<close> is to be sent and
  the listener returns, \<open>Inr None\<close> when the frame is not a connect request, \<open>Inl e\<close> when
  something threw.
\<close>

definition try_connect :: "codec \<Rightarrow> string \<Rightarrow> string \<Rightarrow> js_error + json option" where
  "try_connect cdc gatewayToken data =
     (case JSON_parse cdc data of
        None \<Rightarrow> Inl (SyntaxError ''JSON.parse'')
      | Some msg \<Rightarrow>
          (case get_prop msg ''type'' of
             Inl e \<Rightarrow> Inl e
           | Inr ty \<Rightarrow>
               if ty \<noteq> Some (JStr ''req'') then Inr None
               else (case get_prop msg ''method'' of
                       Inl e \<Rightarrow> Inl e
                     | Inr me \<Rightarrow>
                         if me \<noteq> Some (JStr ''connect'') then Inr None
                         else map_sum id Some (connect_body gatewayToken msg))))"

text \<open>A send guarded by \<^verbatim>\<open>readyState === WebSocket.OPEN\<close>: the frames actually sent.\<close>

definition send_if_open :: "bool \<Rightarrow> frame \<Rightarrow> frame list" where
  "send_if_open is_open data = (if is_open then [data] else [])"

text \<open>
  The listener: the frames it sends to the backend for one frame of the client. The token
  is \<^verbatim>\<open>c.env.MOLTBOT_GATEWAY_TOKEN\<close>, absent or a string, and configured when it is a
  non-empty string. The empty \<^verbatim>\<open>catch\<close> makes every exception fall through to the
  verbatim send of the last line.
\<close>

definition on_client_message :: "codec \<Rightarrow> string option \<Rightarrow> bool \<Rightarrow> frame \<Rightarrow> frame list" where
  "on_client_message cdc gatewayToken container_open data =
     (case (data, gatewayToken) of
        (Text s, Some tok) \<Rightarrow>
          (if tok \<noteq> [] then
             (case try_connect cdc tok s of
                Inr (Some msg) \<Rightarrow> send_if_open container_open (Text (JSON_stringify cdc msg))
              | Inr None \<Rightarrow> send_if_open container_open data
              | Inl e \<Rightarrow> send_if_open container_open data)
           else send_if_open container_open data)
      | _ \<Rightarrow> send_if_open container_open data)"

text \<open>
  A session in the client-to-backend direction: the frames of the client in the order of
  their arrival, each with the state of the backend socket when it arrives. The listener
  keeps no state between frames.
\<close>

definition relay_client :: "codec \<Rightarrow> string option \<Rightarrow> (bool \<times> frame) list \<Rightarrow> frame list" where
  "relay_client cdc gatewayToken events =
     concat (map (\<lambda>(container_open, data). on_client_message cdc gatewayToken container_open data) events)"

subsection \<open>Backend to client: \<^verbatim>\<open>transformErrorMessage\<close> and the listener of \<^verbatim>\<open>containerWs\<close>\<close>

definition token_hint :: "string \<Rightarrow> string" where
  "token_hint host = ''Invalid or missing token. Visit https://'' @ host @ ''?token={REPLACE_WITH_YOUR_TOKEN}''"

definition pairing_hint :: "string \<Rightarrow> string" where
  "pairing_hint host = ''Pairing required. Visit https://'' @ host @ ''/_admin/''"

definition transformErrorMessage :: "string \<Rightarrow> string \<Rightarrow> string" where
  "transformErrorMessage message host =
     (if str_includes message ''gateway token missing'' \<or> str_includes message ''gateway token mismatch''
      then token_hint host
      else if str_includes message ''pairing required''
      then pairing_hint host
      else message)"

text \<open>
  The listener calls \<^verbatim>\<open>transformErrorMessage\<close> on whatever \<^verbatim>\<open>parsed.error.message\<close>
  is, once it is truthy. On a string \<^verbatim>\<open>includes\<close> is the substring test, on an array
  it is membership, and any other value has no \<^verbatim>\<open>includes\<close> to call.
\<close>

fun transform_any :: "json \<Rightarrow> string \<Rightarrow> js_error + json" where
  "transform_any (JStr message) host = Inr (JStr (transformErrorMessage message host))"
| "transform_any (JArr xs) host =
     Inr (if JStr ''gateway token missing'' \<in> set xs \<or> JStr ''gateway token mismatch'' \<in> set xs
          then JStr (token_hint host)
          else if JStr ''pairing required'' \<in> set xs
          then JStr (pairing_hint host)
          else JArr xs)"
| "transform_any v host = Inl (TypeError ''message.includes is not a function'')"

text \<open>\<^verbatim>\<open>parsed.error?.message\<close>, from the value of \<^verbatim>\<open>parsed.error\<close>.\<close>

definition error_message :: "json option \<Rightarrow> json option" where
  "error_message err =
     (case err of
        None \<Rightarrow> None
      | Some JNull \<Rightarrow> None
      | Some (JObj kvs) \<Rightarrow> map_of kvs ''message''
      | Some v \<Rightarrow> None)"

text \<open>
  The \<^verbatim>\<open>try\<close> block: \<open>Inr (Some data')\<close> when \<^verbatim>\<open>data\<close> was replaced,
  \<open>Inr None\<close> when it was left alone, \<open>Inl e\<close> when something threw (and \<^verbatim>\<open>data\<close>
  is still the frame received).
\<close>

definition try_transform :: "codec \<Rightarrow> string \<Rightarrow> string \<Rightarrow> js_error + string option" where
  "try_transform cdc host data =
     (case JSON_parse cdc data of
        None \<Rightarrow> Inl (SyntaxError ''JSON.parse'')
      | Some parsed \<Rightarrow>
          (case get_prop parsed ''type'' of
             Inl e \<Rightarrow> Inl e
           | Inr ty \<Rightarrow>
               (case get_prop parsed ''error'' of
                  Inl e \<Rightarrow> Inl e
                | Inr err \<Rightarrow>
                    (case (err, error_message err) of
                       (Some errv, Some m) \<Rightarrow>
                         if truthy m then
                           (case transform_any m host of
                              Inl e \<Rightarrow> Inl e
                            | Inr m' \<Rightarrow>
                                (case set_prop errv ''message'' m' of
                                   Inl e \<Rightarrow> Inl e
                                 | Inr errv' \<Rightarrow>
                                     (case set_prop parsed ''error'' errv' of
                                        Inl e \<Rightarrow> Inl e
                                      | Inr parsed' \<Rightarrow> Inr (Some (JSON_stringify cdc parsed')))))
                         else Inr None
                     | _ \<Rightarrow> Inr None))))"

definition on_container_message :: "codec \<Rightarrow> string \<Rightarrow> bool \<Rightarrow> frame \<Rightarrow> frame list" where
  "on_container_message cdc host server_open data =
     send_if_open server_open
       (case data of
          Text s \<Rightarrow> (case try_transform cdc host s of Inr (Some s') \<Rightarrow> Text s' | _ \<Rightarrow> data)
        | Binary b \<Rightarrow> data)"

subsection \<open>Close and error listeners\<close>

text \<open>A call \<^verbatim>\<open>ws.close(code, reason)\<close> on one of the two sockets of the pair.\<close>

datatype leg = ClientLeg | BackendLeg

datatype close_call = Close leg nat string

definition cap_reason :: "string \<Rightarrow> string" where
  "cap_reason reason = (if length reason > 123 then take 120 reason @ ''...'' else reason)"

definition on_client_close :: "nat \<Rightarrow> string \<Rightarrow> close_call" where
  "on_client_close code reason = Close BackendLeg code reason"

definition on_container_close :: "string \<Rightarrow> nat \<Rightarrow> string \<Rightarrow> close_call" where
  "on_container_close host code reason = Close ClientLeg code (cap_reason (transformErrorMessage reason host))"

definition on_client_error :: close_call where
  "on_client_error = Close BackendLeg 1011 ''Client error''"

definition on_container_error :: close_call where
  "on_container_error = Close ClientLeg 1011 ''Container error''"

subsection \<open>A parser and printer for running the handlers\<close>

text \<open>
  To run the listeners on frames written out as text, here are a parser and a printer for
  a fragment of JSON: objects, arrays, strings with the escapes of the quote, the backslash
  and the slash, integers, \<^verbatim>\<open>true\<close>, \<^verbatim>\<open>false\<close>, \<^verbatim>\<open>null\<close> and whitespace.
  Outside the fragment (fractions and exponents, other escapes, object keys that are array
  indices, which an engine lists first) the parser gives \<open>None\<close> where \<^verbatim>\<open>JSON.parse\<close>
  would succeed; inside it, a repeated key keeps its first place and its last value, and
  the printer writes no whitespace, as the engine does. The parser recurses on a list that
  is twice as long as the text, which is more than it can use up.
\<close>

definition quote_chr :: char where "quote_chr = CHR 0x22"
definition backslash_chr :: char where "backslash_chr = CHR 0x5C"

definition is_ws :: "char \<Rightarrow> bool" where
  "is_ws c = (c = CHR '' '' \<or> c = CHR 0x0A \<or> c = CHR 0x0D \<or> c = CHR 0x09)"

fun skip_ws :: "string \<Rightarrow> string" where
  "skip_ws [] = []"
| "skip_ws (c # cs) = (if is_ws c then skip_ws cs else c # cs)"

definition is_digit :: "char \<Rightarrow> bool" where
  "is_digit c = (c \<in> set ''0123456789'')"

definition digit_val :: "char \<Rightarrow> nat" where
  "digit_val c = (of_char c :: nat) - 48"

fun scan_string :: "string \<Rightarrow> (string \<times> string) option" where
  "scan_string [] = None"
| "scan_string [c] = (if c = quote_chr then Some ([], []) else None)"
| "scan_string (c # d # cs) =
     (if c = quote_chr then Some ([], d # cs)
      else if c = backslash_chr then
        (if d = quote_chr \<or> d = backslash_chr \<or> d = CHR ''/''
         then map_option (\<lambda>(s, r). (d # s, r)) (scan_string cs)
         else None)
      else if (of_char c :: nat) < 32 then None
      else map_option (\<lambda>(s, r). (c # s, r)) (scan_string (d # cs)))"

fun scan_digits :: "nat \<Rightarrow> string \<Rightarrow> nat \<times> string" where
  "scan_digits acc [] = (acc, [])"
| "scan_digits acc (c # cs) = (if is_digit c then scan_digits (10 * acc + digit_val c) cs else (acc, c # cs))"

definition scan_number :: "string \<Rightarrow> (int \<times> string) option" where
  "scan_number cs =
     (case cs of
        [] \<Rightarrow> None
      | c # r \<Rightarrow>
          if is_digit c then
            (if c = CHR ''0'' then Some (0, r)
             else (case scan_digits 0 cs of (n, r') \<Rightarrow> Some (int n, r')))
          else None)"

definition scan_literal :: "string \<Rightarrow> (json \<times> string) option" where
  "scan_literal cs =
     (if starts_with cs ''true'' then Some (JBool True, drop 4 cs)
      else if starts_with cs ''false'' then Some (JBool False, drop 5 cs)
      else if starts_with cs ''null'' then Some (JNull, drop 4 cs)
      else if starts_with cs ''-'' then map_option (\<lambda>(n, r). (JNum (- n), r)) (scan_number (drop 1 cs))
      else map_option (\<lambda>(n, r). (JNum n, r)) (scan_number cs))"

fun parse_value :: "'f list \<Rightarrow> string \<Rightarrow> (json \<times> string) option"
  and parse_elements :: "'f list \<Rightarrow> json list \<Rightarrow> string \<Rightarrow> (json list \<times> string) option"
  and parse_members :: "'f list \<Rightarrow> (string \<times> json) list \<Rightarrow> string \<Rightarrow> ((string \<times> json) list \<times> string) option"
where
  "parse_value [] cs = None"
| "parse_value (f # fuel) cs =
     (case skip_ws cs of
        [] \<Rightarrow> None
      | c # r \<Rightarrow>
          if c = CHR ''{'' then
            (case skip_ws r of
               [] \<Rightarrow> None
             | d # r' \<Rightarrow>
                 if d = CHR ''}'' then Some (JObj [], r')
                 else map_option (\<lambda>(kvs, r''). (JObj kvs, r'')) (parse_members fuel [] (d # r')))
          else if c = CHR ''['' then
            (case skip_ws r of
               [] \<Rightarrow> None
             | d # r' \<Rightarrow>
                 if d = CHR '']'' then Some (JArr [], r')
                 else map_option (\<lambda>(xs, r''). (JArr xs, r'')) (parse_elements fuel [] (d # r')))
          else if c = quote_chr then map_option (\<lambda>(s, r'). (JStr s, r')) (scan_string r)
          else scan_literal (c # r))"
| "parse_elements [] acc cs = None"
| "parse_elements (f # fuel) acc cs =
     (case parse_value fuel cs of
        None \<Rightarrow> None
      | Some (v, r) \<Rightarrow>
          (case skip_ws r of
             [] \<Rightarrow> None
           | c # r' \<Rightarrow>
               if c = CHR '','' then parse_elements fuel (acc @ [v]) r'
               else if c = CHR '']'' then Some (acc @ [v], r')
               else None))"
| "parse_members [] acc cs = None"
| "parse_members (f # fuel) acc cs =
     (case skip_ws cs of
        [] \<Rightarrow> None
      | q # r \<Rightarrow>
          if q \<noteq> quote_chr then None
          else (case scan_string r of
                  None \<Rightarrow> None
                | Some (k, r1) \<Rightarrow>
                    (case skip_ws r1 of
                       [] \<Rightarrow> None
                     | c # r2 \<Rightarrow>
                         if c \<noteq> CHR '':'' \<or> (k \<noteq> [] \<and> list_all is_digit k) then None
                         else (case parse_value fuel r2 of
                                 None \<Rightarrow> None
                               | Some (v, r3) \<Rightarrow>
                                   (case skip_ws r3 of
                                      [] \<Rightarrow> None
                                    | d # r4 \<Rightarrow>
                                        if d = CHR '','' then parse_members fuel (AList.update k v acc) r4
                                        else if d = CHR ''}'' then Some (AList.update k v acc, r4)
                                        else None)))))"

definition parse_json :: "string \<Rightarrow> json option" where
  "parse_json s =
     (case parse_value (s @ s) s of
        None \<Rightarrow> None
      | Some (v, r) \<Rightarrow> if skip_ws r = [] then Some v else None)"

definition escape_chr :: "char \<Rightarrow> string" where
  "escape_chr c = (if c = quote_chr \<or> c = backslash_chr then [backslash_chr, c] else [c])"

definition quote_string :: "string \<Rightarrow> string" where
  "quote_string s = quote_chr # concat (map escape_chr s) @ [quote_chr]"

fun join_commas :: "string list \<Rightarrow> string" where
  "join_commas [] = []"
| "join_commas [x] = x"
| "join_commas (x # y # ys) = x @ '','' @ join_commas (y # ys)"

function show_nat :: "nat \<Rightarrow> string" where
  "show_nat n = (if n < 10 then [''0123456789'' ! n] else show_nat (n div 10) @ [''0123456789'' ! (n mod 10)])"
  by pat_completeness auto
termination
  by (relation "measure id") auto

declare show_nat.simps [simp del]

definition show_int :: "int \<Rightarrow> string" where
  "show_int i = (if i < 0 then ''-'' @ show_nat (nat (- i)) else show_nat (nat i))"

primrec show_json :: "json \<Rightarrow> string" where
  "show_json JNull = ''null''"
| "show_json (JBool b) = (if b then ''true'' else ''false'')"
| "show_json (JNum n) = show_int n"
| "show_json (JStr s) = quote_string s"
| "show_json (JArr xs) = ''['' @ join_commas (map show_json xs) @ '']''"
| "show_json (JObj kvs) =
     ''{'' @ join_commas (map (\<lambda>(k, s). quote_string k @ '':'' @ s) (map (map_prod id show_json) kvs)) @ ''}''"

definition json_codec :: codec where
  "json_codec = \<lparr>JSON_parse = parse_json, JSON_stringify = show_json\<rparr>"

text \<open>Frames and hosts used below.\<close>

definition connect_frame :: string where
  \<open>connect_frame = ''{"type":"req","method":"connect","params":{"deviceId":"x","signature":"y"}}''\<close>

definition rewritten_frame :: string where
  \<open>rewritten_frame = ''{"type":"req","method":"connect","params":{"auth":{"token":"S"}}}''\<close>

definition long_host :: string where
  "long_host = ''assistant.'' @ replicate 100 (CHR ''x'') @ ''.example''"

text \<open>
  The frames that the claims call connect requests: strings that parse to an object with
  \<^verbatim>\<open>type\<close> \<^verbatim>\<open>"req"\<close> and \<^verbatim>\<open>method\<close> \<^verbatim>\<open>"connect"\<close>.
\<close>

definition is_connect_request :: "codec \<Rightarrow> frame \<Rightarrow> bool" where
  "is_connect_request cdc data =
     (case data of
        Binary b \<Rightarrow> False
      | Text s \<Rightarrow>
          (case JSON_parse cdc s of
             Some (JObj kvs) \<Rightarrow>
               map_of kvs ''type'' = Some (JStr ''req'') \<and> map_of kvs ''method'' = Some (JStr ''connect'')
           | _ \<Rightarrow> False))"

section \<open>Properties of the supervisor\<close>

lemma starts_with_iff: "starts_with s sub \<longleftrightarrow> (\<exists>post. s = sub @ post)"
  by (induction s sub rule: starts_with.induct) auto

lemma str_includes_iff: "str_includes s sub \<longleftrightarrow> (\<exists>pre post. s = pre @ sub @ post)"
proof (induction s)
  case Nil
  then show ?case by auto
next
  case (Cons c s)
  show ?case
  proof
    assume "str_includes (c # s) sub"
    then consider "starts_with (c # s) sub" | "str_includes s sub" by auto
    then show "\<exists>pre post. c # s = pre @ sub @ post"
    proof cases
      case 1
      then obtain post where "c # s = sub @ post" using starts_with_iff by blast
      then have "c # s = [] @ sub @ post" by simp
      then show ?thesis by blast
    next
      case 2
      then obtain pre post where "s = pre @ sub @ post" using Cons.IH by blast
      then have "c # s = (c # pre) @ sub @ post" by simp
      then show ?thesis by blast
    qed
  next
    assume "\<exists>pre post. c # s = pre @ sub @ post"
    then obtain pre post where e: "c # s = pre @ sub @ post" by blast
    show "str_includes (c # s) sub"
    proof (cases pre)
      case Nil
      then have "starts_with (c # s) sub" using e starts_with_iff by auto
      then show ?thesis by simp
    next
      case (Cons d pre')
      then have "s = pre' @ sub @ post" using e by simp
      then have "str_includes s sub" using Cons.IH by blast
      then show ?thesis by simp
    qed
  qed
qed

lemma find_loop_Some: "find_loop ps = Some p \<Longrightarrow> p \<in> set ps \<and> isGatewayProcess p \<and> \<not> isCliCommand p \<and> is_live p"
  by (induction ps) (auto split: if_splits)

lemma find_loop_None: "find_loop ps = None \<longleftrightarrow> (\<forall>p\<in>set ps. \<not> (isGatewayProcess p \<and> \<not> isCliCommand p \<and> is_live p))"
  by (induction ps) auto

lemma find_loop_first:
  "find_loop ps = Some p \<Longrightarrow> \<exists>before after. ps = before @ p # after \<and> (\<forall>q\<in>set before. \<not> (isGatewayProcess q \<and> \<not> isCliCommand q \<and> is_live q))"
proof (induction ps)
  case Nil
  then show ?case by simp
next
  case (Cons a ps)
  show ?case
  proof (cases "isGatewayProcess a \<and> \<not> isCliCommand a \<and> is_live a")
    case True
    then have "a = p" using Cons.prems by simp
    then have "a # ps = [] @ p # ps" by simp
    then show ?thesis by (metis empty_iff list.set(1))
  next
    case False
    then have "find_loop ps = Some p" using Cons.prems by (auto split: if_splits)
    then obtain before after where b: "ps = before @ p # after" "\<forall>q\<in>set before. \<not> (isGatewayProcess q \<and> \<not> isCliCommand q \<and> is_live q)"
      using Cons.IH by blast
    then have "a # ps = (a # before) @ p # after" by simp
    moreover have "\<forall>q\<in>set (a # before). \<not> (isGatewayProcess q \<and> \<not> isCliCommand q \<and> is_live q)"
      using False b(2) by auto
    ultimately show ?thesis by blast
  qed
qed

text \<open>
  Claim C8. \<open>findExistingMoltbotProcess\<close> returns a process exactly when the listing
  succeeds and shows an entry whose command contains \<^verbatim>\<open>start-moltbot.sh\<close> or
  \<^verbatim>\<open>openclaw gateway\<close>, contains neither \<^verbatim>\<open>openclaw devices\<close> nor
  \<^verbatim>\<open>openclaw --version\<close>, and whose status is \<^verbatim>\<open>starting\<close> or \<^verbatim>\<open>running\<close>;
  the process returned is such an entry of the listing. If the listing throws, the
  function returns \<open>None\<close> and \<open>ensureMoltbotGateway\<close> goes on with the launch.
\<close>

theorem findExisting_spec:
  "((\<exists>p. fst (findExistingMoltbotProcess sb s) = Some p) \<longleftrightarrow>
      (\<exists>ps. fst (listProcesses sb (world s)) = Inr ps \<and>
         (\<exists>p\<in>set ps.
            (str_includes (command p) ''start-moltbot.sh'' \<or> str_includes (command p) ''openclaw gateway'')
            \<and> \<not> (str_includes (command p) ''openclaw devices'' \<or> str_includes (command p) ''openclaw --version'')
            \<and> (status p = ''starting'' \<or> status p = ''running''))))
   \<and> (\<forall>p. fst (findExistingMoltbotProcess sb s) = Some p \<longrightarrow>
         (str_includes (command p) ''start-moltbot.sh'' \<or> str_includes (command p) ''openclaw gateway'')
         \<and> \<not> (str_includes (command p) ''openclaw devices'' \<or> str_includes (command p) ''openclaw --version'')
         \<and> (status p = ''starting'' \<or> status p = ''running'')
         \<and> (\<exists>ps. fst (listProcesses sb (world s)) = Inr ps \<and> p \<in> set ps))
   \<and> (\<forall>e. fst (listProcesses sb (world s)) = Inl e \<longrightarrow>
         fst (findExistingMoltbotProcess sb s) = None
         \<and> (do_mount sb env s0 = (Inr b, s) \<longrightarrow>
               ensureMoltbotGateway sb cfg env s0
                 = launch sb cfg env \<lparr>world = snd (listProcesses sb (world s)), trace = trace s @ [Listed False]\<rparr>))"
proof -
  obtain r w' where l: "listProcesses sb (world s) = (r, w')" by (cases "listProcesses sb (world s)")
  show ?thesis
  proof (cases r)
    case (Inl e)
    have f: "findExistingMoltbotProcess sb s = (None, \<lparr>world = w', trace = trace s @ [Listed False]\<rparr>)"
      using l Inl by (simp add: findExistingMoltbotProcess_def do_list_def call_def ok_def)
    have "ensureMoltbotGateway sb cfg env s0 = launch sb cfg env \<lparr>world = w', trace = trace s @ [Listed False]\<rparr>"
      if "do_mount sb env s0 = (Inr b, s)"
      using that f by (simp add: ensureMoltbotGateway_def discover_and_verify_def bind_def)
    then show ?thesis using l Inl f by simp
  next
    case (Inr ps)
    have f: "fst (findExistingMoltbotProcess sb s) = find_loop ps"
      using l Inr by (simp add: findExistingMoltbotProcess_def do_list_def call_def)
    have a: "(\<exists>p. find_loop ps = Some p) \<longleftrightarrow> (\<exists>p\<in>set ps. isGatewayProcess p \<and> \<not> isCliCommand p \<and> is_live p)"
      using find_loop_None[of ps] by (cases "find_loop ps") auto
    have b: "find_loop ps = Some p \<longrightarrow> p \<in> set ps \<and> isGatewayProcess p \<and> \<not> isCliCommand p \<and> is_live p" for p
      using find_loop_Some by blast
    show ?thesis using l Inr f a b
      by (simp add: isGatewayProcess_def isCliCommand_def is_live_def)
  qed
qed

lemmas demo_simps = demo_sandbox_def demo_config_def gateway_proc_def cli_proc_def new_proc_def fresh_def
  do_mount_def do_list_def do_wait_def do_fetch_def do_kill_def do_start_def do_logs_def call_def ok_def

text \<open>The scripted sandbox, once with a CLI invocation listed before the gateway, once with a failing listing.\<close>

theorem findExisting_spec_witness:
  "fst (findExistingMoltbotProcess demo_sandbox (fresh w_two)) = Some gateway_proc
   \<and> fst (listProcesses demo_sandbox (world (fresh w_two))) = Inr [cli_proc, gateway_proc]
   \<and> str_includes (command gateway_proc) ''start-moltbot.sh''
   \<and> str_includes (command cli_proc) ''openclaw gateway''
   \<and> str_includes (command cli_proc) ''openclaw devices''
   \<and> status gateway_proc = ''running''
   \<and> fst (listProcesses demo_sandbox w_nolist) = Inl (Error ''listProcesses failed'')
   \<and> fst (findExistingMoltbotProcess demo_sandbox \<lparr>world = w_nolist, trace = [Mounted True]\<rparr>) = None
   \<and> do_mount demo_sandbox () (fresh w_nolist) = (Inr True, \<lparr>world = w_nolist, trace = [Mounted True]\<rparr>)
   \<and> ensureMoltbotGateway demo_sandbox demo_config () (fresh w_nolist)
        = launch demo_sandbox demo_config () \<lparr>world = w_nolist, trace = [Mounted True, Listed False]\<rparr>
   \<and> fst (ensureMoltbotGateway demo_sandbox demo_config () (fresh w_nolist)) = Inr new_proc"
proof -
  have a: "fst (findExistingMoltbotProcess demo_sandbox (fresh w_two)) = Some gateway_proc"
    by (simp add: findExistingMoltbotProcess_def demo_simps w_two_def isGatewayProcess_def isCliCommand_def is_live_def)
  have b: "fst (listProcesses demo_sandbox w_nolist) = Inl (Error ''listProcesses failed'')"
    by (simp add: demo_simps w_nolist_def)
  have c: "do_mount demo_sandbox () (fresh w_nolist) = (Inr True, \<lparr>world = w_nolist, trace = [Mounted True]\<rparr>)"
    by (simp add: demo_simps)
  have d: "fst (launch demo_sandbox demo_config () \<lparr>world = w_nolist, trace = [Mounted True, Listed False]\<rparr>) = Inr new_proc"
    by (simp add: launch_def kill_stale_def wait_ready_def probe_new_def bind_def try_catch_def return_def throw_def
        demo_simps w_nolist_def Let_def)
  have b': "listProcesses demo_sandbox w_nolist = (Inl (Error ''listProcesses failed''), w_nolist)"
    by (simp add: demo_simps w_nolist_def)
  have e: "ensureMoltbotGateway demo_sandbox demo_config () (fresh w_nolist)
        = launch demo_sandbox demo_config () \<lparr>world = w_nolist, trace = [Mounted True, Listed False]\<rparr>"
    using findExisting_spec [of demo_sandbox "\<lparr>world = w_nolist, trace = [Mounted True]\<rparr>" "()" "fresh w_nolist" True demo_config]
      b' c by simp
  have f: "fst (findExistingMoltbotProcess demo_sandbox \<lparr>world = w_nolist, trace = [Mounted True]\<rparr>) = None"
    using findExisting_spec [of demo_sandbox "\<lparr>world = w_nolist, trace = [Mounted True]\<rparr>" "()" "fresh w_nolist" True demo_config]
      b' by simp
  have g: "fst (listProcesses demo_sandbox (world (fresh w_two))) = Inr [cli_proc, gateway_proc]"
    by (simp add: demo_simps w_two_def)
  have h: "str_includes (command gateway_proc) ''start-moltbot.sh'' \<and> str_includes (command cli_proc) ''openclaw gateway''
   \<and> str_includes (command cli_proc) ''openclaw devices'' \<and> status gateway_proc = ''running''"
    by (simp add: gateway_proc_def cli_proc_def)
  show ?thesis
    using a b c d e f g h by simp
qed

lemma kill_quietly_eq:
  "kill_quietly sb p s =
     (Inr (), \<lparr>world = snd (kill sb p (world s)), trace = trace s @ [Killed p (ok (fst (kill sb p (world s))))]\<rparr>)"
  by (simp add: kill_quietly_def try_catch_def do_kill_def call_def return_def split: prod.splits sum.splits)

lemma check_existing_eq:
  "check_existing sb cfg p s =
     (case do_wait sb cfg p s of
        (Inl e, s3) \<Rightarrow> (Inr None, snd (kill_quietly sb p s3))
      | (Inr u, s3) \<Rightarrow>
          (case do_fetch sb cfg s3 of
             (Inl e, s4) \<Rightarrow> (Inr None, snd (kill_quietly sb p s4))
           | (Inr resp, s4) \<Rightarrow>
               if http_status resp = 500 then (Inr None, snd (kill_quietly sb p s4))
               else (Inr (Some p), s4)))"
  by (simp add: check_existing_def try_catch_def bind_def probe_existing_def return_def throw_def kill_quietly_eq
      split: prod.splits sum.splits)

lemma kill_loop_trace: "\<exists>evs. trace (snd (kill_loop sb ps s)) = trace s @ evs \<and> (\<forall>e\<in>set evs. \<not> is_start e)"
proof (induction ps arbitrary: s)
  case Nil
  then show ?case by (simp add: return_def)
next
  case (Cons p ps)
  show ?case
  proof (cases "isGatewayProcess p \<and> (status p = ''running'' \<or> status p = ''starting'')")
    case False
    then show ?thesis using Cons.IH[of s] by auto
  next
    case True
    obtain r s1 where k: "do_kill sb p s = (r, s1)" by (cases "do_kill sb p s")
    have t1: "trace s1 = trace s @ [Killed p (ok r)]"
      using k by (auto simp: do_kill_def call_def split: prod.splits)
    show ?thesis
    proof (cases r)
      case (Inl e)
      then show ?thesis using True k t1 by (simp add: bind_def)
    next
      case (Inr u)
      from Cons.IH[of s1] obtain evs where "trace (snd (kill_loop sb ps s1)) = trace s1 @ evs" "\<forall>e\<in>set evs. \<not> is_start e"
        by blast
      then show ?thesis using True k t1 Inr by (simp add: bind_def)
    qed
  qed
qed

lemma kill_stale_trace:
  "fst (kill_stale sb s) = Inr () \<and> (\<exists>evs. trace (snd (kill_stale sb s)) = trace s @ evs \<and> (\<forall>e\<in>set evs. \<not> is_start e))"
proof -
  obtain r s1 where l: "do_list sb s = (r, s1)" by (cases "do_list sb s")
  have t1: "trace s1 = trace s @ [Listed (ok r)]"
    using l by (auto simp: do_list_def call_def split: prod.splits)
  show ?thesis
  proof (cases r)
    case (Inl e)
    then show ?thesis using l t1 by (simp add: kill_stale_def try_catch_def bind_def return_def)
  next
    case (Inr ps)
    from kill_loop_trace[of sb ps s1] obtain evs where
      e: "trace (snd (kill_loop sb ps s1)) = trace s1 @ evs" "\<forall>e\<in>set evs. \<not> is_start e" by blast
    obtain r2 s2 where k: "kill_loop sb ps s1 = (r2, s2)" by (cases "kill_loop sb ps s1")
    show ?thesis using l t1 Inr e k
      by (cases r2) (auto simp add: kill_stale_def try_catch_def bind_def return_def)
  qed
qed

lemma do_wait_trace: "do_wait sb cfg p s = (r, s') \<Longrightarrow> trace s' = trace s @ [WaitedForPort p (MOLTBOT_PORT cfg) (STARTUP_TIMEOUT_MS cfg) (ok r)]"
  by (auto simp: do_wait_def call_def split: prod.splits)

lemma do_fetch_trace:
  "do_fetch sb cfg s = (r, s') \<Longrightarrow>
     trace s' = trace s @ [Fetched (MOLTBOT_PORT cfg) (case r of Inl e \<Rightarrow> None | Inr resp \<Rightarrow> Some (http_status resp))]"
  by (auto simp: do_fetch_def call_def split: prod.splits)

lemma do_logs_trace: "do_logs sb p s = (r, s') \<Longrightarrow> trace s' = trace s @ [GotLogs p (ok r)]"
  by (auto simp: do_logs_def call_def split: prod.splits)

lemma do_start_trace:
  "do_start sb cmd ev s = (r, s') \<Longrightarrow>
     trace s' = trace s @ [Started cmd ev (case r of Inl e \<Rightarrow> None | Inr p \<Rightarrow> Some p)]"
  by (auto simp: do_start_def call_def split: prod.splits)

lemma do_mount_trace: "do_mount sb env s = (r, s') \<Longrightarrow> trace s' = trace s @ [Mounted (ok r)]"
  by (auto simp: do_mount_def call_def split: prod.splits)

lemma findExisting_trace:
  "findExistingMoltbotProcess sb s = (r, s') \<Longrightarrow> \<exists>b. trace s' = trace s @ [Listed b]"
  by (auto simp: findExistingMoltbotProcess_def do_list_def call_def split: prod.splits sum.splits)

lemma wait_ready_eq:
  "wait_ready sb cfg proc s =
     (case do_wait sb cfg proc s of
        (Inl e, s1) \<Rightarrow> (Inl e, snd (do_logs sb proc s1))
      | (Inr u, s1) \<Rightarrow>
          (case do_logs sb proc s1 of
             (Inl e, s2) \<Rightarrow> (Inl e, snd (do_logs sb proc s2))
           | (Inr lg, s2) \<Rightarrow> (Inr (), s2)))"
  by (simp add: wait_ready_def try_catch_def bind_def return_def throw_def split: prod.splits sum.splits)

lemma probe_new_eq:
  "probe_new sb cfg s =
     (case do_fetch sb cfg s of
        (Inl e, s1) \<Rightarrow> (Inl (Error ''Gateway started but not reachable via sandbox network (may be bound to loopback)''), s1)
      | (Inr resp, s1) \<Rightarrow>
          if http_status resp = 500
          then (Inl (Error ''Gateway started but not reachable via sandbox network (may be bound to loopback)''), s1)
          else (Inr (), s1))"
  by (simp add: probe_new_def try_catch_def bind_def return_def throw_def split: prod.splits sum.splits)

lemma launch_eq:
  "launch sb cfg env s =
     (case do_start sb ''/usr/local/bin/start-moltbot.sh'' (launch_args sb env) (snd (kill_stale sb s)) of
        (Inl e, s2) \<Rightarrow> (Inl e, s2)
      | (Inr proc, s2) \<Rightarrow>
          (case wait_ready sb cfg proc s2 of
             (Inl e, s3) \<Rightarrow> (Inl e, s3)
           | (Inr u, s3) \<Rightarrow>
               (case probe_new sb cfg s3 of
                  (Inl e, s4) \<Rightarrow> (Inl e, s4)
                | (Inr u, s4) \<Rightarrow> (Inr proc, s4))))"
proof -
  obtain s1 where k: "kill_stale sb s = (Inr (), s1)"
    using kill_stale_trace[of sb s] by (cases "kill_stale sb s") auto
  show ?thesis
    by (simp add: launch_def launch_args_def bind_def k Let_def return_def split: prod.splits sum.splits)
qed

lemma quiet_refl: "quiet s s"
  by (simp add: quiet_def)

lemma quiet_trans: "quiet s s' \<Longrightarrow> quiet s' s'' \<Longrightarrow> quiet s s''"
  unfolding quiet_def by force

lemma quiet_step: "trace s' = trace s @ [e] \<Longrightarrow> \<not> is_start e \<Longrightarrow> quiet s s'"
  by (simp add: quiet_def)

lemma quiet_logs: "quiet s (snd (do_logs sb p s))"
  using do_logs_trace[of sb p s] by (cases "do_logs sb p s") (auto intro: quiet_step)

lemma quiet_wait: "quiet s (snd (do_wait sb cfg p s))"
  using do_wait_trace[of sb cfg p s] by (cases "do_wait sb cfg p s") (auto intro: quiet_step)

lemma quiet_fetch: "quiet s (snd (do_fetch sb cfg s))"
  using do_fetch_trace[of sb cfg s] by (cases "do_fetch sb cfg s") (auto intro: quiet_step)

lemma quiet_kill_stale: "quiet s (snd (kill_stale sb s))"
  using kill_stale_trace[of sb s] by (simp add: quiet_def)

lemma quiet_wait_ready: "quiet s (snd (wait_ready sb cfg p s))"
proof -
  obtain r1 s1 where w: "do_wait sb cfg p s = (r1, s1)" by (cases "do_wait sb cfg p s")
  obtain r2 s2 where l: "do_logs sb p s1 = (r2, s2)" by (cases "do_logs sb p s1")
  have q1: "quiet s s1" using quiet_wait[of s sb cfg p] w by simp
  have q2: "quiet s1 s2" using quiet_logs[of s1 sb p] l by simp
  have q3: "quiet s2 (snd (do_logs sb p s2))" by (rule quiet_logs)
  show ?thesis
    using w l q1 q2 q3 by (auto simp: wait_ready_eq split: sum.splits intro: quiet_trans)
qed

lemma quiet_probe_new: "quiet s (snd (probe_new sb cfg s))"
  using quiet_fetch[of s sb cfg]
  by (cases "do_fetch sb cfg s") (auto simp: probe_new_eq split: sum.splits)

lemma launch_starts:
  "\<exists>pre r post. trace (snd (launch sb cfg env s))
      = trace s @ pre @ Started ''/usr/local/bin/start-moltbot.sh'' (launch_args sb env) r # post
    \<and> (\<forall>e\<in>set pre. \<not> is_start e) \<and> (\<forall>e\<in>set post. \<not> is_start e)"
proof -
  let ?cmd = "''/usr/local/bin/start-moltbot.sh''"
  obtain pre where pre: "trace (snd (kill_stale sb s)) = trace s @ pre" "\<forall>e\<in>set pre. \<not> is_start e"
    using kill_stale_trace[of sb s] by blast
  obtain r2 s2 where st: "do_start sb ?cmd (launch_args sb env) (snd (kill_stale sb s)) = (r2, s2)"
    by (cases "do_start sb ?cmd (launch_args sb env) (snd (kill_stale sb s))")
  define ev where "ev = Started ?cmd (launch_args sb env) (case r2 of Inl e \<Rightarrow> None | Inr p \<Rightarrow> Some p)"
  have t2: "trace s2 = trace s @ pre @ [ev]"
    using do_start_trace[OF st] pre by (simp add: ev_def)
  have "\<exists>post. trace (snd (launch sb cfg env s)) = trace s2 @ post \<and> (\<forall>e\<in>set post. \<not> is_start e)"
  proof (cases r2)
    case (Inl e)
    then show ?thesis using st by (simp add: launch_eq)
  next
    case (Inr proc)
    obtain r3 s3 where w: "wait_ready sb cfg proc s2 = (r3, s3)" by (cases "wait_ready sb cfg proc s2")
    have q3: "quiet s2 s3" using quiet_wait_ready[of s2 sb cfg proc] w by simp
    have q4: "quiet s3 (snd (probe_new sb cfg s3))" by (rule quiet_probe_new)
    have "quiet s2 (snd (launch sb cfg env s))"
      using st Inr w q3 q4 quiet_trans[OF q3 q4]
      by (cases "probe_new sb cfg s3") (auto simp: launch_eq split: sum.splits)
    then show ?thesis by (simp add: quiet_def)
  qed
  then obtain post where "trace (snd (launch sb cfg env s)) = trace s2 @ post" "\<forall>e\<in>set post. \<not> is_start e"
    by blast
  then have "trace (snd (launch sb cfg env s)) = trace s @ pre @ ev # post" using t2 by simp
  then show ?thesis using pre(2) \<open>\<forall>e\<in>set post. \<not> is_start e\<close> unfolding ev_def by blast
qed

lemma launch_wait_failure:
  assumes "do_start sb ''/usr/local/bin/start-moltbot.sh'' (launch_args sb env) (snd (kill_stale sb s)) = (Inr q, s2)"
      and "do_wait sb cfg q s2 = (Inl e, s3)"
  shows "fst (launch sb cfg env s) = Inl e"
  using assms by (simp add: launch_eq wait_ready_eq split: prod.splits)

lemma launch_logs_failure:
  assumes "do_start sb ''/usr/local/bin/start-moltbot.sh'' (launch_args sb env) (snd (kill_stale sb s)) = (Inr q, s2)"
      and "do_wait sb cfg q s2 = (Inr (), s3)"
      and "do_logs sb q s3 = (Inl e, s4)"
  shows "fst (launch sb cfg env s) = Inl e"
  using assms by (simp add: launch_eq wait_ready_eq split: prod.splits)

lemma ensure_eq:
  "ensureMoltbotGateway sb cfg env s0 =
     (case discover_and_verify sb cfg env s0 of
        (Inl e, s) \<Rightarrow> (Inl e, s)
      | (Inr (Some p), s) \<Rightarrow> (Inr p, s)
      | (Inr None, s) \<Rightarrow> launch sb cfg env s)"
  by (simp add: ensureMoltbotGateway_def bind_def return_def split: prod.splits sum.splits option.splits)

lemma discover_eq:
  "do_mount sb env s0 = (Inr b, s1) \<Longrightarrow> findExistingMoltbotProcess sb s1 = (Some p, s2) \<Longrightarrow>
     discover_and_verify sb cfg env s0 = check_existing sb cfg p s2"
  by (simp add: discover_and_verify_def bind_def)

lemma check_existing_verified:
  assumes "reachable_from_overlay sb cfg p s2"
  shows "\<exists>st s4. st \<noteq> 500 \<and> check_existing sb cfg p s2 = (Inr (Some p), s4)
           \<and> trace s4 = trace s2 @ [WaitedForPort p (MOLTBOT_PORT cfg) (STARTUP_TIMEOUT_MS cfg) True,
                                     Fetched (MOLTBOT_PORT cfg) (Some st)]"
proof -
  obtain r3 s3 where w: "do_wait sb cfg p s2 = (r3, s3)" by (cases "do_wait sb cfg p s2")
  obtain r4 s4 where f: "do_fetch sb cfg s3 = (r4, s4)" by (cases "do_fetch sb cfg s3")
  from assms w obtain u where r3: "r3 = Inr u"
    by (cases r3) (auto simp: reachable_from_overlay_def)
  from assms w f r3 obtain resp where r4: "r4 = Inr resp" "http_status resp \<noteq> 500"
    by (cases r4) (auto simp: reachable_from_overlay_def)
  have "check_existing sb cfg p s2 = (Inr (Some p), s4)"
    using w f r3 r4 by (simp add: check_existing_eq)
  moreover have "trace s4 = trace s2 @ [WaitedForPort p (MOLTBOT_PORT cfg) (STARTUP_TIMEOUT_MS cfg) True,
                                     Fetched (MOLTBOT_PORT cfg) (Some (http_status resp))]"
    using do_wait_trace[OF w] do_fetch_trace[OF f] r3 r4 by (simp add: ok_def)
  ultimately show ?thesis using r4(2) by blast
qed

lemma check_existing_unverified:
  assumes "\<not> reachable_from_overlay sb cfg p s2"
  shows "\<exists>pre k s5. check_existing sb cfg p s2 = (Inr None, s5)
           \<and> trace s5 = trace s2 @ pre @ [Killed p k] \<and> (\<forall>e\<in>set pre. \<not> is_start e \<and> \<not> is_kill_of p e)"
proof -
  obtain r3 s3 where w: "do_wait sb cfg p s2 = (r3, s3)" by (cases "do_wait sb cfg p s2")
  obtain r4 s4 where f: "do_fetch sb cfg s3 = (r4, s4)" by (cases "do_fetch sb cfg s3")
  note tw = do_wait_trace[OF w] and tf = do_fetch_trace[OF f]
  show ?thesis
  proof (cases r3)
    case (Inl e)
    then show ?thesis using w tw by (simp add: check_existing_eq kill_quietly_eq)
  next
    case (Inr u)
    have bad: "(\<exists>e. r4 = Inl e) \<or> (\<exists>resp. r4 = Inr resp \<and> http_status resp = 500)"
      using assms w f Inr by (cases r4) (auto simp: reachable_from_overlay_def)
    then show ?thesis
      using w f Inr tw tf by (auto simp: check_existing_eq kill_quietly_eq)
  qed
qed

lemma launch_result_started:
  assumes "fst (launch sb cfg env s) = Inr q"
  shows "\<exists>w' w''. startProcess sb ''/usr/local/bin/start-moltbot.sh'' (launch_args sb env) w' = (Inr q, w'')"
proof -
  let ?cmd = "''/usr/local/bin/start-moltbot.sh''"
  let ?s1 = "snd (kill_stale sb s)"
  obtain r2 s2 where st: "do_start sb ?cmd (launch_args sb env) ?s1 = (r2, s2)"
    by (cases "do_start sb ?cmd (launch_args sb env) ?s1")
  from assms st obtain proc where r2: "r2 = Inr proc"
    by (cases r2) (auto simp: launch_eq)
  have "proc = q"
    using assms st r2 by (auto simp: launch_eq split: prod.splits sum.splits)
  moreover have "startProcess sb ?cmd (launch_args sb env) (world ?s1) = (Inr proc, world s2)"
    using st r2 by (auto simp: do_start_def call_def split: prod.splits)
  ultimately show ?thesis by blast
qed

lemma existing_process_cases:
  assumes "do_mount sb env (fresh w) = (Inr b, s1)"
      and "findExistingMoltbotProcess sb s1 = (Some p, s2)"
  shows "((fst (ensureMoltbotGateway sb cfg env (fresh w)) = Inr p
            \<and> \<not> (\<exists>e\<in>set (trace (snd (ensureMoltbotGateway sb cfg env (fresh w)))). is_start e))
          \<longleftrightarrow> reachable_from_overlay sb cfg p s2)
       \<and> (reachable_from_overlay sb cfg p s2 \<longrightarrow>
            fst (ensureMoltbotGateway sb cfg env (fresh w)) = Inr p
            \<and> \<not> (\<exists>e\<in>set (trace (snd (ensureMoltbotGateway sb cfg env (fresh w)))). is_kill_of p e)
            \<and> \<not> (\<exists>e\<in>set (trace (snd (ensureMoltbotGateway sb cfg env (fresh w)))). is_start e))
       \<and> (\<not> reachable_from_overlay sb cfg p s2 \<longrightarrow>
            ensureMoltbotGateway sb cfg env (fresh w) = launch sb cfg env (snd (check_existing sb cfg p s2))
            \<and> (\<exists>pre k post r.
                  trace (snd (ensureMoltbotGateway sb cfg env (fresh w)))
                    = pre @ Killed p k # post
                  \<and> (\<forall>e\<in>set pre. \<not> is_start e \<and> \<not> is_kill_of p e)
                  \<and> Started ''/usr/local/bin/start-moltbot.sh'' (launch_args sb env) r \<in> set post))
       \<and> ((\<forall>w' w''. startProcess sb ''/usr/local/bin/start-moltbot.sh'' (launch_args sb env) w' \<noteq> (Inr p, w'')) \<longrightarrow>
            (fst (ensureMoltbotGateway sb cfg env (fresh w)) = Inr p \<longleftrightarrow> reachable_from_overlay sb cfg p s2))"
proof -
  let ?r = "ensureMoltbotGateway sb cfg env (fresh w)"
  have t1: "trace s1 = [Mounted True]"
    using do_mount_trace[OF assms(1)] by (simp add: fresh_def ok_def)
  obtain lb where t2: "trace s2 = [Mounted True, Listed lb]"
    using findExisting_trace[OF assms(2)] t1 by auto
  have d: "discover_and_verify sb cfg env (fresh w) = check_existing sb cfg p s2"
    using discover_eq[OF assms] .
  have pos: "fst ?r = Inr p \<and> \<not> (\<exists>e\<in>set (trace (snd ?r)). is_kill_of p e) \<and> \<not> (\<exists>e\<in>set (trace (snd ?r)). is_start e)"
    if v: "reachable_from_overlay sb cfg p s2"
  proof -
    from check_existing_verified[OF v] obtain st s4 where
      c: "check_existing sb cfg p s2 = (Inr (Some p), s4)"
         "trace s4 = trace s2 @ [WaitedForPort p (MOLTBOT_PORT cfg) (STARTUP_TIMEOUT_MS cfg) True,
                                     Fetched (MOLTBOT_PORT cfg) (Some st)]"
      by blast
    have "?r = (Inr p, s4)" using d c(1) by (simp add: ensure_eq)
    then show ?thesis using c(2) t2 by simp
  qed
  have neg: "?r = launch sb cfg env (snd (check_existing sb cfg p s2))
            \<and> (\<exists>pre k post r. trace (snd ?r) = pre @ Killed p k # post
                  \<and> (\<forall>e\<in>set pre. \<not> is_start e \<and> \<not> is_kill_of p e)
                  \<and> Started ''/usr/local/bin/start-moltbot.sh'' (launch_args sb env) r \<in> set post)"
    if nv: "\<not> reachable_from_overlay sb cfg p s2"
  proof -
    from check_existing_unverified[OF nv] obtain pre k s5 where
      c: "check_existing sb cfg p s2 = (Inr None, s5)" "trace s5 = trace s2 @ pre @ [Killed p k]"
         "\<forall>e\<in>set pre. \<not> is_start e \<and> \<not> is_kill_of p e"
      by blast
    have r: "?r = launch sb cfg env s5" using d c(1) by (simp add: ensure_eq)
    from launch_starts[of sb cfg env s5] obtain pre' r' post' where
      l: "trace (snd (launch sb cfg env s5)) = trace s5 @ pre' @ Started ''/usr/local/bin/start-moltbot.sh'' (launch_args sb env) r' # post'"
      by blast
    have "trace (snd ?r) = (trace s2 @ pre) @ Killed p k # (pre' @ Started ''/usr/local/bin/start-moltbot.sh'' (launch_args sb env) r' # post')"
      using r l c(2) by simp
    moreover have "\<forall>e\<in>set (trace s2 @ pre). \<not> is_start e \<and> \<not> is_kill_of p e"
      using t2 c(3) by auto
    moreover have "Started ''/usr/local/bin/start-moltbot.sh'' (launch_args sb env) r' \<in> set (pre' @ Started ''/usr/local/bin/start-moltbot.sh'' (launch_args sb env) r' # post')"
      by simp
    ultimately show ?thesis using r c(1) by (metis snd_conv)
  qed
  have neg_start: "\<exists>e\<in>set (trace (snd ?r)). is_start e" if nv: "\<not> reachable_from_overlay sb cfg p s2"
  proof -
    from neg[OF nv] obtain pre k post r where
      "trace (snd ?r) = pre @ Killed p k # post" "Started ''/usr/local/bin/start-moltbot.sh'' (launch_args sb env) r \<in> set post"
      by blast
    then have "Started ''/usr/local/bin/start-moltbot.sh'' (launch_args sb env) r \<in> set (trace (snd ?r))" by simp
    moreover have "is_start (Started ''/usr/local/bin/start-moltbot.sh'' (launch_args sb env) r)" by simp
    ultimately show ?thesis by blast
  qed
  have distinct_start: "fst ?r = Inr p \<longleftrightarrow> reachable_from_overlay sb cfg p s2"
    if fr: "\<forall>w' w''. startProcess sb ''/usr/local/bin/start-moltbot.sh'' (launch_args sb env) w' \<noteq> (Inr p, w'')"
  proof
    assume rp: "fst ?r = Inr p"
    show "reachable_from_overlay sb cfg p s2"
    proof (rule ccontr)
      assume nv: "\<not> reachable_from_overlay sb cfg p s2"
      then have "fst (launch sb cfg env (snd (check_existing sb cfg p s2))) = Inr p"
        using neg rp by simp
      from launch_result_started[OF this] fr show False by blast
    qed
  next
    assume "reachable_from_overlay sb cfg p s2"
    then show "fst ?r = Inr p" using pos by blast
  qed
  show ?thesis using pos neg neg_start distinct_start by blast
qed

lemma do_mount_run:
  "mountR2Storage sb env w = (r, w') \<Longrightarrow>
     do_mount sb env \<lparr>world = w, trace = t\<rparr> = (r, \<lparr>world = w', trace = t @ [Mounted (ok r)]\<rparr>)"
  by (simp add: do_mount_def call_def)

lemma findExisting_run:
  "listProcesses sb w = (Inr ps, w') \<Longrightarrow>
     findExistingMoltbotProcess sb \<lparr>world = w, trace = t\<rparr> = (find_loop ps, \<lparr>world = w', trace = t @ [Listed True]\<rparr>)"
  by (simp add: findExistingMoltbotProcess_def do_list_def call_def ok_def)

lemma do_wait_run:
  "waitForPort sb p (MOLTBOT_PORT cfg) (STARTUP_TIMEOUT_MS cfg) w = (r, w') \<Longrightarrow>
     do_wait sb cfg p \<lparr>world = w, trace = t\<rparr>
       = (r, \<lparr>world = w', trace = t @ [WaitedForPort p (MOLTBOT_PORT cfg) (STARTUP_TIMEOUT_MS cfg) (ok r)]\<rparr>)"
  by (simp add: do_wait_def call_def)

lemma do_fetch_run:
  "containerFetch sb (MOLTBOT_PORT cfg) w = (r, w') \<Longrightarrow>
     do_fetch sb cfg \<lparr>world = w, trace = t\<rparr>
       = (r, \<lparr>world = w', trace = t @ [Fetched (MOLTBOT_PORT cfg) (case r of Inl e \<Rightarrow> None | Inr resp \<Rightarrow> Some (http_status resp))]\<rparr>)"
  by (simp add: do_fetch_def call_def)

lemma do_logs_run:
  "getLogs sb p w = (r, w') \<Longrightarrow>
     do_logs sb p \<lparr>world = w, trace = t\<rparr> = (r, \<lparr>world = w', trace = t @ [GotLogs p (ok r)]\<rparr>)"
  by (simp add: do_logs_def call_def)

lemma do_start_run:
  "startProcess sb cmd ev w = (r, w') \<Longrightarrow>
     do_start sb cmd ev \<lparr>world = w, trace = t\<rparr>
       = (r, \<lparr>world = w', trace = t @ [Started cmd ev (case r of Inl e \<Rightarrow> None | Inr p \<Rightarrow> Some p)]\<rparr>)"
  by (simp add: do_start_def call_def)

lemma kill_quietly_run:
  "kill sb p w = (k, w') \<Longrightarrow>
     kill_quietly sb p \<lparr>world = w, trace = t\<rparr> = (Inr (), \<lparr>world = w', trace = t @ [Killed p (ok k)]\<rparr>)"
  by (simp add: kill_quietly_eq)

lemma check_existing_run:
  assumes "waitForPort sb p (MOLTBOT_PORT cfg) (STARTUP_TIMEOUT_MS cfg) w2 = (rw, w3)"
      and "containerFetch sb (MOLTBOT_PORT cfg) w3 = (rf, w4)"
      and "kill sb p w3 = (k3, w3')"
      and "kill sb p w4 = (k4, w4')"
  shows "check_existing sb cfg p \<lparr>world = w2, trace = t\<rparr> =
     (if rw = Inr () then
        (if \<exists>resp. rf = Inr resp \<and> http_status resp \<noteq> 500
         then (Inr (Some p),
               \<lparr>world = w4,
                trace = t @ [WaitedForPort p (MOLTBOT_PORT cfg) (STARTUP_TIMEOUT_MS cfg) True,
                             Fetched (MOLTBOT_PORT cfg) (case rf of Inl e \<Rightarrow> None | Inr resp \<Rightarrow> Some (http_status resp))]\<rparr>)
         else (Inr None,
               \<lparr>world = w4',
                trace = t @ [WaitedForPort p (MOLTBOT_PORT cfg) (STARTUP_TIMEOUT_MS cfg) True,
                             Fetched (MOLTBOT_PORT cfg) (case rf of Inl e \<Rightarrow> None | Inr resp \<Rightarrow> Some (http_status resp)),
                             Killed p (ok k4)]\<rparr>))
      else (Inr None,
            \<lparr>world = w3',
             trace = t @ [WaitedForPort p (MOLTBOT_PORT cfg) (STARTUP_TIMEOUT_MS cfg) False, Killed p (ok k3)]\<rparr>))"
proof (cases rw)
  case (Inl e)
  then show ?thesis
    using do_wait_run[OF assms(1), of t] kill_quietly_run[OF assms(3)]
    by (simp add: check_existing_eq ok_def)
next
  case (Inr u)
  show ?thesis
  proof (cases rf)
    case (Inl e)
    then show ?thesis
      using Inr do_wait_run[OF assms(1), of t] do_fetch_run[OF assms(2)] kill_quietly_run[OF assms(4)]
      by (simp add: check_existing_eq ok_def)
  next
    case (Inr resp)
    then show ?thesis
      using \<open>rw = Inr u\<close> do_wait_run[OF assms(1), of t] do_fetch_run[OF assms(2)] kill_quietly_run[OF assms(4)]
      by (simp add: check_existing_eq ok_def)
  qed
qed

lemma reachable_run:
  assumes "waitForPort sb p (MOLTBOT_PORT cfg) (STARTUP_TIMEOUT_MS cfg) w2 = (rw, w3)"
      and "containerFetch sb (MOLTBOT_PORT cfg) w3 = (rf, w4)"
  shows "reachable_from_overlay sb cfg p \<lparr>world = w2, trace = t\<rparr>
           \<longleftrightarrow> rw = Inr () \<and> (\<exists>resp. rf = Inr resp \<and> http_status resp \<noteq> 500)"
  using do_wait_run[OF assms(1), of t] do_fetch_run[OF assms(2)]
  by (cases rw; cases rf) (simp_all add: reachable_from_overlay_def)

lemma launch_start_failure:
  assumes "startProcess sb ''/usr/local/bin/start-moltbot.sh'' (launch_args sb env) (world (snd (kill_stale sb s))) = (Inl e, w')"
  shows "launch sb cfg env s =
           (Inl e, \<lparr>world = w', trace = trace (snd (kill_stale sb s))
                      @ [Started ''/usr/local/bin/start-moltbot.sh'' (launch_args sb env) None]\<rparr>)"
proof -
  obtain w1 t1 where k: "snd (kill_stale sb s) = \<lparr>world = w1, trace = t1\<rparr>"
    by (cases "snd (kill_stale sb s)") auto
  show ?thesis
    using assms k do_start_run[of sb "''/usr/local/bin/start-moltbot.sh''" "launch_args sb env" w1 "Inl e" w' t1]
    by (simp add: launch_eq)
qed

lemma launch_result_started_at:
  assumes "fst (launch sb cfg env s) = Inr q"
  shows "\<exists>w''. startProcess sb ''/usr/local/bin/start-moltbot.sh'' (launch_args sb env) (world (snd (kill_stale sb s))) = (Inr q, w'')"
proof -
  let ?cmd = "''/usr/local/bin/start-moltbot.sh''"
  let ?s1 = "snd (kill_stale sb s)"
  obtain r2 s2 where st: "do_start sb ?cmd (launch_args sb env) ?s1 = (r2, s2)"
    by (cases "do_start sb ?cmd (launch_args sb env) ?s1")
  from assms st obtain proc where r2: "r2 = Inr proc"
    by (cases r2) (auto simp: launch_eq)
  have "proc = q"
    using assms st r2 by (auto simp: launch_eq split: prod.splits sum.splits)
  moreover have "startProcess sb ?cmd (launch_args sb env) (world ?s1) = (Inr proc, world s2)"
    using st r2 by (auto simp: do_start_def call_def split: prod.splits)
  ultimately show ?thesis by blast
qed

text \<open>
  Claim C1. Let the mount succeed, let the listing show the processes \<open>ps\<close> and let the
  loop of discovery find \<open>p\<close> among them. Name what the sandbox answers next: \<open>rw\<close> is
  the outcome of \<^verbatim>\<open>p.waitForPort(MOLTBOT_PORT, {mode: 'tcp', timeout: STARTUP_TIMEOUT_MS})\<close>,
  \<open>rf\<close> the outcome of \<^verbatim>\<open>containerFetch\<close> after it, and \<open>w3'\<close>, \<open>w4'\<close> are the
  states in which \<^verbatim>\<open>p.kill()\<close> leaves the sandbox after the wait and after the fetch.
  (1) If the wait succeeds and the fetch resolves with a status other than 500,
  \<open>ensureMoltbotGateway\<close> returns \<open>p\<close>, having called nothing but mount, list, wait and
  fetch: no kill, no start. (2) If the wait fails, and (3) if the wait succeeds but the
  fetch fails or gives 500, the sandbox's \<^verbatim>\<open>kill\<close> is applied to \<open>p\<close>, whether it
  succeeds or not, and the call is the launch run from the state the kill left. (4) The
  launch does call the sandbox's \<^verbatim>\<open>startProcess\<close>: its failure is the failure of the
  launch, and a process the launch returns is one that \<^verbatim>\<open>startProcess\<close> gave.
  (5) The call returns \<open>p\<close> without any start exactly when the two checks succeed, and
  (6) if \<^verbatim>\<open>startProcess\<close> never gives \<open>p\<close> again, it returns \<open>p\<close> exactly then.
\<close>

theorem existing_process_returned_iff_verified:
  assumes "mountR2Storage sb env w = (Inr b, w1)"
      and "listProcesses sb w1 = (Inr ps, w2)"
      and "find_loop ps = Some p"
      and "waitForPort sb p (MOLTBOT_PORT cfg) (STARTUP_TIMEOUT_MS cfg) w2 = (rw, w3)"
      and "containerFetch sb (MOLTBOT_PORT cfg) w3 = (rf, w4)"
      and "kill sb p w3 = (k3, w3')"
      and "kill sb p w4 = (k4, w4')"
  shows "(rw = Inr () \<and> (\<exists>resp. rf = Inr resp \<and> http_status resp \<noteq> 500) \<longrightarrow>
            ensureMoltbotGateway sb cfg env (fresh w) =
              (Inr p,
               \<lparr>world = w4,
                trace = [Mounted True, Listed True,
                         WaitedForPort p (MOLTBOT_PORT cfg) (STARTUP_TIMEOUT_MS cfg) True,
                         Fetched (MOLTBOT_PORT cfg) (case rf of Inl e \<Rightarrow> None | Inr resp \<Rightarrow> Some (http_status resp))]\<rparr>))
       \<and> ((\<exists>e. rw = Inl e) \<longrightarrow>
            ensureMoltbotGateway sb cfg env (fresh w) =
              launch sb cfg env
                \<lparr>world = w3',
                 trace = [Mounted True, Listed True,
                          WaitedForPort p (MOLTBOT_PORT cfg) (STARTUP_TIMEOUT_MS cfg) False,
                          Killed p (ok k3)]\<rparr>)
       \<and> (rw = Inr () \<and> \<not> (\<exists>resp. rf = Inr resp \<and> http_status resp \<noteq> 500) \<longrightarrow>
            ensureMoltbotGateway sb cfg env (fresh w) =
              launch sb cfg env
                \<lparr>world = w4',
                 trace = [Mounted True, Listed True,
                          WaitedForPort p (MOLTBOT_PORT cfg) (STARTUP_TIMEOUT_MS cfg) True,
                          Fetched (MOLTBOT_PORT cfg) (case rf of Inl e \<Rightarrow> None | Inr resp \<Rightarrow> Some (http_status resp)),
                          Killed p (ok k4)]\<rparr>)
       \<and> (startProcess sb ''/usr/local/bin/start-moltbot.sh'' (launch_args sb env) (world (snd (kill_stale sb s))) = (Inl e, w') \<longrightarrow>
            launch sb cfg env s =
              (Inl e, \<lparr>world = w', trace = trace (snd (kill_stale sb s))
                         @ [Started ''/usr/local/bin/start-moltbot.sh'' (launch_args sb env) None]\<rparr>))
       \<and> (fst (launch sb cfg env s) = Inr q \<longrightarrow>
            (\<exists>w''. startProcess sb ''/usr/local/bin/start-moltbot.sh'' (launch_args sb env) (world (snd (kill_stale sb s)))
                     = (Inr q, w'')))
       \<and> ((fst (ensureMoltbotGateway sb cfg env (fresh w)) = Inr p
            \<and> \<not> (\<exists>e\<in>set (trace (snd (ensureMoltbotGateway sb cfg env (fresh w)))). is_start e))
          \<longleftrightarrow> rw = Inr () \<and> (\<exists>resp. rf = Inr resp \<and> http_status resp \<noteq> 500))
       \<and> (\<not> (rw = Inr () \<and> (\<exists>resp. rf = Inr resp \<and> http_status resp \<noteq> 500)) \<longrightarrow>
            (\<exists>r. Started ''/usr/local/bin/start-moltbot.sh'' (launch_args sb env) r
                   \<in> set (trace (snd (ensureMoltbotGateway sb cfg env (fresh w))))))
       \<and> ((\<forall>u u'. startProcess sb ''/usr/local/bin/start-moltbot.sh'' (launch_args sb env) u \<noteq> (Inr p, u')) \<longrightarrow>
            (fst (ensureMoltbotGateway sb cfg env (fresh w)) = Inr p
              \<longleftrightarrow> rw = Inr () \<and> (\<exists>resp. rf = Inr resp \<and> http_status resp \<noteq> 500)))"
proof -
  let ?s1 = "\<lparr>world = w1, trace = [Mounted True]\<rparr>"
  let ?s2 = "\<lparr>world = w2, trace = [Mounted True, Listed True]\<rparr>"
  let ?V = "rw = Inr () \<and> (\<exists>resp. rf = Inr resp \<and> http_status resp \<noteq> 500)"
  have m: "do_mount sb env (fresh w) = (Inr b, ?s1)"
    using do_mount_run[OF assms(1), of "[]"] by (simp add: fresh_def ok_def)
  have f: "findExistingMoltbotProcess sb ?s1 = (Some p, ?s2)"
    using findExisting_run[OF assms(2), of "[Mounted True]"] assms(3) by simp
  have e: "ensureMoltbotGateway sb cfg env (fresh w) =
             (case check_existing sb cfg p ?s2 of
                (Inl e, s) \<Rightarrow> (Inl e, s)
              | (Inr (Some p), s) \<Rightarrow> (Inr p, s)
              | (Inr None, s) \<Rightarrow> launch sb cfg env s)"
    using discover_eq[OF m f, of cfg] by (simp add: ensure_eq)
  note c = check_existing_run[OF assms(4-7), of "[Mounted True, Listed True]"]
  have rv: "reachable_from_overlay sb cfg p ?s2 \<longleftrightarrow> ?V"
    by (rule reachable_run[OF assms(4,5)])
  note old = existing_process_cases[OF m f, of cfg]
  have 1: "?V \<longrightarrow> ensureMoltbotGateway sb cfg env (fresh w) =
              (Inr p,
               \<lparr>world = w4,
                trace = [Mounted True, Listed True,
                         WaitedForPort p (MOLTBOT_PORT cfg) (STARTUP_TIMEOUT_MS cfg) True,
                         Fetched (MOLTBOT_PORT cfg) (case rf of Inl e \<Rightarrow> None | Inr resp \<Rightarrow> Some (http_status resp))]\<rparr>)"
    using e c by auto
  have 2: "(\<exists>e. rw = Inl e) \<longrightarrow>
            ensureMoltbotGateway sb cfg env (fresh w) =
              launch sb cfg env
                \<lparr>world = w3',
                 trace = [Mounted True, Listed True,
                          WaitedForPort p (MOLTBOT_PORT cfg) (STARTUP_TIMEOUT_MS cfg) False,
                          Killed p (ok k3)]\<rparr>"
    using e c by auto
  have 3: "rw = Inr () \<and> \<not> (\<exists>resp. rf = Inr resp \<and> http_status resp \<noteq> 500) \<longrightarrow>
            ensureMoltbotGateway sb cfg env (fresh w) =
              launch sb cfg env
                \<lparr>world = w4',
                 trace = [Mounted True, Listed True,
                          WaitedForPort p (MOLTBOT_PORT cfg) (STARTUP_TIMEOUT_MS cfg) True,
                          Fetched (MOLTBOT_PORT cfg) (case rf of Inl e \<Rightarrow> None | Inr resp \<Rightarrow> Some (http_status resp)),
                          Killed p (ok k4)]\<rparr>"
    using e c by auto
  have 4: "startProcess sb ''/usr/local/bin/start-moltbot.sh'' (launch_args sb env) (world (snd (kill_stale sb s))) = (Inl e, w') \<longrightarrow>
            launch sb cfg env s =
              (Inl e, \<lparr>world = w', trace = trace (snd (kill_stale sb s))
                         @ [Started ''/usr/local/bin/start-moltbot.sh'' (launch_args sb env) None]\<rparr>)"
    by (rule impI) (rule launch_start_failure)
  have 5: "fst (launch sb cfg env s) = Inr q \<longrightarrow>
            (\<exists>w''. startProcess sb ''/usr/local/bin/start-moltbot.sh'' (launch_args sb env) (world (snd (kill_stale sb s)))
                     = (Inr q, w''))"
    by (rule impI) (rule launch_result_started_at)
  have 6: "(fst (ensureMoltbotGateway sb cfg env (fresh w)) = Inr p
            \<and> \<not> (\<exists>e\<in>set (trace (snd (ensureMoltbotGateway sb cfg env (fresh w)))). is_start e))
          \<longleftrightarrow> ?V"
    using old rv by blast
  have 7: "\<not> ?V \<longrightarrow>
            (\<exists>r. Started ''/usr/local/bin/start-moltbot.sh'' (launch_args sb env) r
                   \<in> set (trace (snd (ensureMoltbotGateway sb cfg env (fresh w)))))"
  proof
    assume "\<not> ?V"
    then have "\<not> reachable_from_overlay sb cfg p ?s2" using rv by blast
    then obtain pre k post r where
      "trace (snd (ensureMoltbotGateway sb cfg env (fresh w))) = pre @ Killed p k # post"
      "Started ''/usr/local/bin/start-moltbot.sh'' (launch_args sb env) r \<in> set post"
      using old by blast
    then have "Started ''/usr/local/bin/start-moltbot.sh'' (launch_args sb env) r
                 \<in> set (trace (snd (ensureMoltbotGateway sb cfg env (fresh w))))"
      by simp
    then show "\<exists>r. Started ''/usr/local/bin/start-moltbot.sh'' (launch_args sb env) r
                   \<in> set (trace (snd (ensureMoltbotGateway sb cfg env (fresh w))))"
      by blast
  qed
  have 8: "(\<forall>u u'. startProcess sb ''/usr/local/bin/start-moltbot.sh'' (launch_args sb env) u \<noteq> (Inr p, u')) \<longrightarrow>
            (fst (ensureMoltbotGateway sb cfg env (fresh w)) = Inr p \<longleftrightarrow> ?V)"
    using old rv by blast
  show ?thesis using 1 2 3 4 5 6 7 8 by blast
qed

lemma check_existing_Some:
  assumes "check_existing sb cfg p s = (Inr (Some q), s')"
  shows "q = p \<and> (\<exists>st. st \<noteq> 500 \<and> trace s' = trace s @ [WaitedForPort p (MOLTBOT_PORT cfg) (STARTUP_TIMEOUT_MS cfg) True,
                                     Fetched (MOLTBOT_PORT cfg) (Some st)])"
proof (cases "reachable_from_overlay sb cfg p s")
  case True
  from check_existing_verified[OF True] assms show ?thesis by auto
next
  case False
  from check_existing_unverified[OF False] assms show ?thesis by auto
qed

lemma discover_Some:
  assumes "discover_and_verify sb cfg env s0 = (Inr (Some q), s')"
  shows "\<exists>pre st. st \<noteq> 500 \<and> trace s' = pre @ [WaitedForPort q (MOLTBOT_PORT cfg) (STARTUP_TIMEOUT_MS cfg) True,
                                     Fetched (MOLTBOT_PORT cfg) (Some st)]"
proof -
  obtain r1 s1 where m: "do_mount sb env s0 = (r1, s1)" by (cases "do_mount sb env s0")
  obtain r2 s2 where f: "findExistingMoltbotProcess sb s1 = (r2, s2)" by (cases "findExistingMoltbotProcess sb s1")
  from assms m obtain b where r1: "r1 = Inr b"
    by (cases r1) (auto simp: discover_and_verify_def bind_def)
  from assms m f r1 obtain p where r2: "r2 = Some p"
    by (cases r2) (auto simp: discover_and_verify_def bind_def)
  have "check_existing sb cfg p s2 = (Inr (Some q), s')"
    using assms m f r1 r2 by (simp add: discover_and_verify_def bind_def)
  from check_existing_Some[OF this] show ?thesis by (metis append.assoc)
qed

lemma launch_success:
  assumes "launch sb cfg env s = (Inr q, s')"
  shows "\<exists>pre st. st \<noteq> 500 \<and> trace s' = pre @ [WaitedForPort q (MOLTBOT_PORT cfg) (STARTUP_TIMEOUT_MS cfg) True,
                                     GotLogs q True, Fetched (MOLTBOT_PORT cfg) (Some st)]"
proof -
  let ?cmd = "''/usr/local/bin/start-moltbot.sh''"
  obtain r2 s2 where st: "do_start sb ?cmd (launch_args sb env) (snd (kill_stale sb s)) = (r2, s2)"
    by (cases "do_start sb ?cmd (launch_args sb env) (snd (kill_stale sb s))")
  from assms st obtain proc where r2: "r2 = Inr proc"
    by (cases r2) (auto simp: launch_eq)
  obtain r3 s3 where w: "do_wait sb cfg proc s2 = (r3, s3)" by (cases "do_wait sb cfg proc s2")
  obtain r4 s4 where l: "do_logs sb proc s3 = (r4, s4)" by (cases "do_logs sb proc s3")
  obtain r5 s5 where f: "do_fetch sb cfg s4 = (r5, s5)" by (cases "do_fetch sb cfg s4")
  from assms st r2 w obtain u where r3: "r3 = Inr u"
    by (cases r3) (auto simp: launch_eq wait_ready_eq split: prod.splits)
  from assms st r2 w r3 l obtain lg where r4: "r4 = Inr lg"
    by (cases r4) (auto simp: launch_eq wait_ready_eq split: prod.splits)
  have wr: "wait_ready sb cfg proc s2 = (Inr (), s4)"
    using w r3 l r4 by (simp add: wait_ready_eq)
  from assms st r2 wr f obtain resp where r5: "r5 = Inr resp" "http_status resp \<noteq> 500"
    by (cases r5) (auto simp: launch_eq probe_new_eq split: if_splits)
  have res: "launch sb cfg env s = (Inr proc, s5)"
    using st r2 wr f r5 by (simp add: launch_eq probe_new_eq)
  then have "q = proc" "s' = s5" using assms by auto
  moreover have "trace s5 = trace s2 @ [WaitedForPort proc (MOLTBOT_PORT cfg) (STARTUP_TIMEOUT_MS cfg) True,
                                     GotLogs proc True, Fetched (MOLTBOT_PORT cfg) (Some (http_status resp))]"
    using do_wait_trace[OF w] do_logs_trace[OF l] do_fetch_trace[OF f] r3 r4 r5 by (simp add: ok_def)
  ultimately show ?thesis using r5(2) by blast
qed

lemma launch_probe_failure:
  assumes "do_start sb ''/usr/local/bin/start-moltbot.sh'' (launch_args sb env) (snd (kill_stale sb s)) = (Inr q, s2)"
      and "wait_ready sb cfg q s2 = (Inr (), s3)"
      and "do_fetch sb cfg s3 = (r4, s4)"
      and "\<forall>resp. r4 = Inr resp \<longrightarrow> http_status resp = 500"
  shows "launch sb cfg env s =
           (Inl (Error ''Gateway started but not reachable via sandbox network (may be bound to loopback)''), s4)"
  using assms by (cases r4) (auto simp: launch_eq probe_new_eq)

lemma new_process_probe_failure:
  assumes d: "discover_and_verify sb cfg env s0 = (Inr None, s)"
    and st: "startProcess sb ''/usr/local/bin/start-moltbot.sh'' (launch_args sb env) (world (snd (kill_stale sb s))) = (Inr q, u2)"
    and wt: "waitForPort sb q (MOLTBOT_PORT cfg) (STARTUP_TIMEOUT_MS cfg) u2 = (Inr (), u3)"
    and lg: "getLogs sb q u3 = (Inr lg, u4)"
    and ft: "containerFetch sb (MOLTBOT_PORT cfg) u4 = (rf', u5)"
    and bad: "\<forall>resp. rf' = Inr resp \<longrightarrow> http_status resp = 500"
  shows "fst (ensureMoltbotGateway sb cfg env s0) =
          Inl (Error ''Gateway started but not reachable via sandbox network (may be bound to loopback)'')
        \<and> world (snd (ensureMoltbotGateway sb cfg env s0)) = u5"
proof -
  obtain t1 where k: "snd (kill_stale sb s) = \<lparr>world = world (snd (kill_stale sb s)), trace = t1\<rparr>"
    by (cases "snd (kill_stale sb s)") auto
  obtain t2 where st': "do_start sb ''/usr/local/bin/start-moltbot.sh'' (launch_args sb env) (snd (kill_stale sb s))
                          = (Inr q, \<lparr>world = u2, trace = t2\<rparr>)"
    using do_start_run[OF st, of t1] k by metis
  obtain t3 where wt': "do_wait sb cfg q \<lparr>world = u2, trace = t2\<rparr> = (Inr (), \<lparr>world = u3, trace = t3\<rparr>)"
    using do_wait_run[OF wt, of t2] by blast
  obtain t4 where lg': "do_logs sb q \<lparr>world = u3, trace = t3\<rparr> = (Inr lg, \<lparr>world = u4, trace = t4\<rparr>)"
    using do_logs_run[OF lg, of t3] by blast
  obtain t5 where ft': "do_fetch sb cfg \<lparr>world = u4, trace = t4\<rparr> = (rf', \<lparr>world = u5, trace = t5\<rparr>)"
    using do_fetch_run[OF ft, of t4] by blast
  have wr: "wait_ready sb cfg q \<lparr>world = u2, trace = t2\<rparr> = (Inr (), \<lparr>world = u4, trace = t4\<rparr>)"
    using wt' lg' by (simp add: wait_ready_eq)
  have "ensureMoltbotGateway sb cfg env s0 =
          (Inl (Error ''Gateway started but not reachable via sandbox network (may be bound to loopback)''),
           \<lparr>world = u5, trace = t5\<rparr>)"
    using launch_probe_failure[OF st' wr ft' bad] d by (simp add: ensure_eq)
  then show ?thesis by simp
qed

text \<open>
  Claim C2. A process whose overlay probe failed is never the result. (1) If discovery
  finds \<open>p\<close>, the sandbox's \<^verbatim>\<open>waitForPort\<close> succeeds on it and \<^verbatim>\<open>containerFetch\<close>
  then fails or gives 500, the sandbox's \<^verbatim>\<open>kill\<close> is applied to \<open>p\<close> right after the
  probe, and the call is the launch run from the state \<open>w5\<close> that the kill left. (2) On
  the launch path, if the port of the new process opens and the fetch fails or gives 500,
  the call throws the error "Gateway started but not reachable via sandbox network".
  (3) Whenever the call returns a process, the last thing it did was a fetch that resolved
  with a status other than 500, after a successful wait for the port of that very process.
  (4) is (2) again in terms of the sandbox alone: \<^verbatim>\<open>startProcess\<close> gives \<open>q\<close>, its
  \<^verbatim>\<open>waitForPort\<close> and \<^verbatim>\<open>getLogs\<close> succeed, \<^verbatim>\<open>containerFetch\<close> fails or gives
  500: the call throws that error and leaves the sandbox as the fetch left it.
\<close>

theorem loopback_only_never_returned:
  "(mountR2Storage sb env w = (Inr b, w1) \<longrightarrow>
    listProcesses sb w1 = (Inr ps, w2) \<longrightarrow>
    find_loop ps = Some p \<longrightarrow>
    waitForPort sb p (MOLTBOT_PORT cfg) (STARTUP_TIMEOUT_MS cfg) w2 = (Inr (), w3) \<longrightarrow>
    containerFetch sb (MOLTBOT_PORT cfg) w3 = (rf, w4) \<longrightarrow>
    (\<forall>resp. rf = Inr resp \<longrightarrow> http_status resp = 500) \<longrightarrow>
    kill sb p w4 = (k, w5) \<longrightarrow>
      ensureMoltbotGateway sb cfg env (fresh w) =
        launch sb cfg env
          \<lparr>world = w5,
           trace = [Mounted True, Listed True,
                    WaitedForPort p (MOLTBOT_PORT cfg) (STARTUP_TIMEOUT_MS cfg) True,
                    Fetched (MOLTBOT_PORT cfg) (case rf of Inl e \<Rightarrow> None | Inr resp \<Rightarrow> Some 500),
                    Killed p (ok k)]\<rparr>)
   \<and> (discover_and_verify sb cfg env s0 = (Inr None, s) \<longrightarrow>
      do_start sb ''/usr/local/bin/start-moltbot.sh'' (launch_args sb env) (snd (kill_stale sb s)) = (Inr q, t2) \<longrightarrow>
      wait_ready sb cfg q t2 = (Inr (), t3) \<longrightarrow>
      do_fetch sb cfg t3 = (r5, t4) \<longrightarrow>
      (\<forall>resp. r5 = Inr resp \<longrightarrow> http_status resp = 500) \<longrightarrow>
        ensureMoltbotGateway sb cfg env s0 =
          (Inl (Error ''Gateway started but not reachable via sandbox network (may be bound to loopback)''), t4))
   \<and> (\<forall>q'. fst (ensureMoltbotGateway sb cfg env (fresh w)) = Inr q' \<longrightarrow>
        (\<exists>pre st. st \<noteq> 500 \<and>
           (trace (snd (ensureMoltbotGateway sb cfg env (fresh w)))
              = pre @ [WaitedForPort q' (MOLTBOT_PORT cfg) (STARTUP_TIMEOUT_MS cfg) True, Fetched (MOLTBOT_PORT cfg) (Some st)]
            \<or> trace (snd (ensureMoltbotGateway sb cfg env (fresh w)))
              = pre @ [WaitedForPort q' (MOLTBOT_PORT cfg) (STARTUP_TIMEOUT_MS cfg) True, GotLogs q' True,
                       Fetched (MOLTBOT_PORT cfg) (Some st)])))
   \<and> (discover_and_verify sb cfg env s0 = (Inr None, s) \<longrightarrow>
      startProcess sb ''/usr/local/bin/start-moltbot.sh'' (launch_args sb env) (world (snd (kill_stale sb s))) = (Inr q, u2) \<longrightarrow>
      waitForPort sb q (MOLTBOT_PORT cfg) (STARTUP_TIMEOUT_MS cfg) u2 = (Inr (), u3) \<longrightarrow>
      getLogs sb q u3 = (Inr lg, u4) \<longrightarrow>
      containerFetch sb (MOLTBOT_PORT cfg) u4 = (rf', u5) \<longrightarrow>
      (\<forall>resp. rf' = Inr resp \<longrightarrow> http_status resp = 500) \<longrightarrow>
        fst (ensureMoltbotGateway sb cfg env s0) =
          Inl (Error ''Gateway started but not reachable via sandbox network (may be bound to loopback)'')
        \<and> world (snd (ensureMoltbotGateway sb cfg env s0)) = u5)"
proof (intro conjI impI allI)
  assume mount: "mountR2Storage sb env w = (Inr b, w1)"
    and listing: "listProcesses sb w1 = (Inr ps, w2)"
    and found: "find_loop ps = Some p"
    and wt: "waitForPort sb p (MOLTBOT_PORT cfg) (STARTUP_TIMEOUT_MS cfg) w2 = (Inr (), w3)"
    and ft: "containerFetch sb (MOLTBOT_PORT cfg) w3 = (rf, w4)"
    and bad: "\<forall>resp. rf = Inr resp \<longrightarrow> http_status resp = 500"
    and kl: "kill sb p w4 = (k, w5)"
  let ?s1 = "\<lparr>world = w1, trace = [Mounted True]\<rparr>"
  let ?s2 = "\<lparr>world = w2, trace = [Mounted True, Listed True]\<rparr>"
  have m: "do_mount sb env (fresh w) = (Inr b, ?s1)"
    using do_mount_run[OF mount, of "[]"] by (simp add: fresh_def ok_def)
  have f: "findExistingMoltbotProcess sb ?s1 = (Some p, ?s2)"
    using findExisting_run[OF listing, of "[Mounted True]"] found by simp
  obtain k3 w3' where kl3: "kill sb p w3 = (k3, w3')" by (cases "kill sb p w3")
  have fe: "(case rf of Inl e \<Rightarrow> None | Inr resp \<Rightarrow> Some (http_status resp))
              = (case rf of Inl e \<Rightarrow> None | Inr resp \<Rightarrow> Some 500)"
    using bad by (cases rf) auto
  have c: "check_existing sb cfg p ?s2 =
             (Inr None,
              \<lparr>world = w5,
               trace = [Mounted True, Listed True,
                        WaitedForPort p (MOLTBOT_PORT cfg) (STARTUP_TIMEOUT_MS cfg) True,
                        Fetched (MOLTBOT_PORT cfg) (case rf of Inl e \<Rightarrow> None | Inr resp \<Rightarrow> Some 500),
                        Killed p (ok k)]\<rparr>)"
    using check_existing_run[OF wt ft kl3 kl, of "[Mounted True, Listed True]"] bad fe by auto
  show "ensureMoltbotGateway sb cfg env (fresh w) =
        launch sb cfg env
          \<lparr>world = w5,
           trace = [Mounted True, Listed True,
                    WaitedForPort p (MOLTBOT_PORT cfg) (STARTUP_TIMEOUT_MS cfg) True,
                    Fetched (MOLTBOT_PORT cfg) (case rf of Inl e \<Rightarrow> None | Inr resp \<Rightarrow> Some 500),
                    Killed p (ok k)]\<rparr>"
    using discover_eq[OF m f, of cfg] c by (simp add: ensure_eq)
next
  assume d: "discover_and_verify sb cfg env s0 = (Inr None, s)"
    and st: "do_start sb ''/usr/local/bin/start-moltbot.sh'' (launch_args sb env) (snd (kill_stale sb s)) = (Inr q, t2)"
    and wr: "wait_ready sb cfg q t2 = (Inr (), t3)"
    and ft: "do_fetch sb cfg t3 = (r5, t4)"
    and bad: "\<forall>resp. r5 = Inr resp \<longrightarrow> http_status resp = 500"
  show "ensureMoltbotGateway sb cfg env s0 =
          (Inl (Error ''Gateway started but not reachable via sandbox network (may be bound to loopback)''), t4)"
    using launch_probe_failure[OF st wr ft bad] d by (simp add: ensure_eq)
next
  fix q'
  let ?r = "ensureMoltbotGateway sb cfg env (fresh w)"
  assume r: "fst ?r = Inr q'"
  obtain rd sd where d: "discover_and_verify sb cfg env (fresh w) = (rd, sd)"
    by (cases "discover_and_verify sb cfg env (fresh w)")
  show "\<exists>pre st. st \<noteq> 500 \<and>
           (trace (snd ?r)
              = pre @ [WaitedForPort q' (MOLTBOT_PORT cfg) (STARTUP_TIMEOUT_MS cfg) True, Fetched (MOLTBOT_PORT cfg) (Some st)]
            \<or> trace (snd ?r)
              = pre @ [WaitedForPort q' (MOLTBOT_PORT cfg) (STARTUP_TIMEOUT_MS cfg) True, GotLogs q' True,
                       Fetched (MOLTBOT_PORT cfg) (Some st)])"
  proof (cases rd)
    case (Inl e)
    then show ?thesis using r d by (simp add: ensure_eq)
  next
    case (Inr found)
    show ?thesis
    proof (cases found)
      case (Some p')
      then have "?r = (Inr p', sd)" using d Inr by (simp add: ensure_eq)
      then have "p' = q'" "snd ?r = sd" using r by auto
      then show ?thesis using discover_Some[of sb cfg env "fresh w" q' sd] d Inr Some by auto
    next
      case None
      then have e: "?r = launch sb cfg env sd" using d Inr by (simp add: ensure_eq)
      then have "launch sb cfg env sd = (Inr q', snd ?r)" using r by (metis prod.collapse)
      from launch_success[OF this] show ?thesis by blast
    qed
  qed
next
  assume d: "discover_and_verify sb cfg env s0 = (Inr None, s)"
    and st: "startProcess sb ''/usr/local/bin/start-moltbot.sh'' (launch_args sb env) (world (snd (kill_stale sb s))) = (Inr q, u2)"
    and wt: "waitForPort sb q (MOLTBOT_PORT cfg) (STARTUP_TIMEOUT_MS cfg) u2 = (Inr (), u3)"
    and lg: "getLogs sb q u3 = (Inr lg, u4)"
    and ft: "containerFetch sb (MOLTBOT_PORT cfg) u4 = (rf', u5)"
    and bad: "\<forall>resp. rf' = Inr resp \<longrightarrow> http_status resp = 500"
  note np = new_process_probe_failure[OF d st wt lg ft bad]
  {
    show "fst (ensureMoltbotGateway sb cfg env s0) =
          Inl (Error ''Gateway started but not reachable via sandbox network (may be bound to loopback)'')"
      using np by simp
  next
    show "world (snd (ensureMoltbotGateway sb cfg env s0)) = u5"
      using np by simp
  }
qed

text \<open>
  Claim C10. On the launch path, if the port of the new process opens but the
  \<^verbatim>\<open>getLogs\<close> call that follows fails, \<open>ensureMoltbotGateway\<close> throws (the error of
  \<^verbatim>\<open>getLogs\<close>) and does not return the process.
\<close>

theorem launch_requires_log_fetch:
  assumes "discover_and_verify sb cfg env s0 = (Inr None, s)"
      and "do_start sb ''/usr/local/bin/start-moltbot.sh'' (launch_args sb env) (snd (kill_stale sb s)) = (Inr q, s2)"
      and "do_wait sb cfg q s2 = (Inr (), s3)"
      and "do_logs sb q s3 = (Inl e, s4)"
  shows "fst (ensureMoltbotGateway sb cfg env s0) = Inl e"
  using launch_logs_failure[OF assms(2,3,4)] assms(1) by (simp add: ensure_eq)

lemmas prog_simps = launch_def kill_stale_def wait_ready_def probe_new_def bind_def try_catch_def return_def
  throw_def Let_def ensureMoltbotGateway_def discover_and_verify_def findExistingMoltbotProcess_def
  check_existing_def probe_existing_def kill_quietly_def isGatewayProcess_def isCliCommand_def is_live_def

text \<open>
  Claim C1 on scripted sandboxes: a process that passes both checks (status 401); one whose
  port never opens; one whose fetch fails; one whose fetch gives 500; in the last three the
  kill takes the process off the listing before the launch. Then a sandbox whose kill
  fails, and one whose \<^verbatim>\<open>startProcess\<close> fails.
\<close>

theorem existing_process_returned_iff_verified_witness:
  "ensureMoltbotGateway demo_sandbox demo_config () (fresh w_two)
     = (Inr gateway_proc,
        \<lparr>world = w_two\<lparr>fetches := []\<rparr>,
         trace = [Mounted True, Listed True, WaitedForPort gateway_proc 18789 180000 True, Fetched 18789 (Some 401)]\<rparr>)
   \<and> waitForPort demo_sandbox gateway_proc 18789 180000 w_dead = (Inl (Error ''timeout''), w_dead)
   \<and> kill demo_sandbox gateway_proc w_dead = (Inr (), w_dead\<lparr>procs := Some []\<rparr>)
   \<and> ensureMoltbotGateway demo_sandbox demo_config () (fresh w_dead)
     = launch demo_sandbox demo_config ()
         \<lparr>world = w_dead\<lparr>procs := Some []\<rparr>,
          trace = [Mounted True, Listed True, WaitedForPort gateway_proc 18789 180000 False, Killed gateway_proc True]\<rparr>
   \<and> fst (ensureMoltbotGateway demo_sandbox demo_config () (fresh w_dead)) = Inr new_proc
   \<and> containerFetch demo_sandbox 18789 w_nofetch = (Inl (Error ''fetch failed''), w_nofetch\<lparr>fetches := [Some 204]\<rparr>)
   \<and> ensureMoltbotGateway demo_sandbox demo_config () (fresh w_nofetch)
     = launch demo_sandbox demo_config ()
         \<lparr>world = w_nofetch\<lparr>procs := Some [], fetches := [Some 204]\<rparr>,
          trace = [Mounted True, Listed True, WaitedForPort gateway_proc 18789 180000 True, Fetched 18789 None,
                   Killed gateway_proc True]\<rparr>
   \<and> fst (ensureMoltbotGateway demo_sandbox demo_config () (fresh w_nofetch)) = Inr new_proc
   \<and> ensureMoltbotGateway demo_sandbox demo_config () (fresh w_loop)
     = launch demo_sandbox demo_config ()
         \<lparr>world = w_loop\<lparr>procs := Some [], fetches := [Some 200]\<rparr>,
          trace = [Mounted True, Listed True, WaitedForPort gateway_proc 18789 180000 True, Fetched 18789 (Some 500),
                   Killed gateway_proc True]\<rparr>
   \<and> fst (ensureMoltbotGateway demo_sandbox demo_config () (fresh w_loop)) = Inr new_proc
   \<and> kill stubborn_sandbox gateway_proc w_dead = (Inl (Error ''kill failed''), w_dead)
   \<and> ensureMoltbotGateway stubborn_sandbox demo_config () (fresh w_dead)
     = launch stubborn_sandbox demo_config ()
         \<lparr>world = w_dead,
          trace = [Mounted True, Listed True, WaitedForPort gateway_proc 18789 180000 False, Killed gateway_proc False]\<rparr>
   \<and> fst (ensureMoltbotGateway stubborn_sandbox demo_config () (fresh w_dead)) = Inr new_proc
   \<and> launch startless_sandbox demo_config () (fresh w_timeout)
     = (Inl (Error ''start failed''),
        \<lparr>world = w_timeout, trace = [Listed True, Started ''/usr/local/bin/start-moltbot.sh'' None None]\<rparr>)
   \<and> startProcess demo_sandbox ''/usr/local/bin/start-moltbot.sh'' (launch_args demo_sandbox ())
        (world (snd (kill_stale demo_sandbox (fresh w_timeout)))) = (Inr new_proc, w_timeout)
   \<and> (\<forall>u u'. startProcess demo_sandbox ''/usr/local/bin/start-moltbot.sh'' (launch_args demo_sandbox ()) u
                   \<noteq> (Inr gateway_proc, u'))
   \<and> fst (ensureMoltbotGateway demo_sandbox demo_config () (fresh w_loop)) \<noteq> Inr gateway_proc
   \<and> (\<exists>r. Started ''/usr/local/bin/start-moltbot.sh'' (launch_args demo_sandbox ()) r
            \<in> set (trace (snd (ensureMoltbotGateway demo_sandbox demo_config () (fresh w_dead)))))"
proof -
  note T = existing_process_returned_iff_verified
  note pair = surjective_pairing
  \<comment> \<open>both checks pass\<close>
  have m1: "mountR2Storage demo_sandbox () w_two = (Inr True, w_two)" by (simp add: demo_sandbox_def)
  have l1: "listProcesses demo_sandbox w_two = (Inr [cli_proc, gateway_proc], w_two)"
    by (simp add: demo_sandbox_def w_two_def)
  have f1: "find_loop [cli_proc, gateway_proc] = Some gateway_proc"
    by (simp add: isGatewayProcess_def isCliCommand_def is_live_def gateway_proc_def cli_proc_def)
  have wt1: "waitForPort demo_sandbox gateway_proc (MOLTBOT_PORT demo_config) (STARTUP_TIMEOUT_MS demo_config) w_two
               = (Inr (), w_two)"
    by (simp add: demo_sandbox_def w_two_def gateway_proc_def)
  have ft1: "containerFetch demo_sandbox (MOLTBOT_PORT demo_config) w_two
               = (Inr \<lparr>http_status = 401\<rparr>, w_two\<lparr>fetches := []\<rparr>)"
    by (simp add: demo_sandbox_def w_two_def)
  have A: "ensureMoltbotGateway demo_sandbox demo_config () (fresh w_two)
     = (Inr gateway_proc,
        \<lparr>world = w_two\<lparr>fetches := []\<rparr>,
         trace = [Mounted True, Listed True, WaitedForPort gateway_proc 18789 180000 True, Fetched 18789 (Some 401)]\<rparr>)"
    using T [OF m1 l1 f1 wt1 ft1 pair pair, THEN conjunct1] by (simp add: demo_config_def)
  \<comment> \<open>the port never opens\<close>
  have m2: "mountR2Storage demo_sandbox () w_dead = (Inr True, w_dead)" by (simp add: demo_sandbox_def)
  have l2: "listProcesses demo_sandbox w_dead = (Inr [gateway_proc], w_dead)"
    by (simp add: demo_sandbox_def w_dead_def)
  have f2: "find_loop [gateway_proc] = Some gateway_proc"
    by (simp add: isGatewayProcess_def isCliCommand_def is_live_def gateway_proc_def)
  have wt2: "waitForPort demo_sandbox gateway_proc (MOLTBOT_PORT demo_config) (STARTUP_TIMEOUT_MS demo_config) w_dead
               = (Inl (Error ''timeout''), w_dead)"
    by (simp add: demo_sandbox_def w_dead_def gateway_proc_def)
  have ft2: "containerFetch demo_sandbox (MOLTBOT_PORT demo_config) w_dead
               = (Inr \<lparr>http_status = 200\<rparr>, w_dead\<lparr>fetches := []\<rparr>)"
    by (simp add: demo_sandbox_def w_dead_def)
  have k2: "kill demo_sandbox gateway_proc w_dead = (Inr (), w_dead\<lparr>procs := Some []\<rparr>)"
    by (simp add: demo_sandbox_def w_dead_def gateway_proc_def)
  have B: "ensureMoltbotGateway demo_sandbox demo_config () (fresh w_dead)
     = launch demo_sandbox demo_config ()
         \<lparr>world = w_dead\<lparr>procs := Some []\<rparr>,
          trace = [Mounted True, Listed True, WaitedForPort gateway_proc 18789 180000 False, Killed gateway_proc True]\<rparr>"
    using T [OF m2 l2 f2 wt2 ft2 k2 pair, THEN conjunct2, THEN conjunct1] by (simp add: demo_config_def ok_def)
  have B': "fst (launch demo_sandbox demo_config ()
         \<lparr>world = w_dead\<lparr>procs := Some []\<rparr>,
          trace = [Mounted True, Listed True, WaitedForPort gateway_proc 18789 180000 False, Killed gateway_proc True]\<rparr>)
        = Inr new_proc"
    by (simp add: prog_simps demo_simps w_dead_def)
  have B'': "\<exists>r. Started ''/usr/local/bin/start-moltbot.sh'' (launch_args demo_sandbox ()) r
            \<in> set (trace (snd (ensureMoltbotGateway demo_sandbox demo_config () (fresh w_dead))))"
    using T [OF m2 l2 f2 wt2 ft2 k2 pair, THEN conjunct2, THEN conjunct2, THEN conjunct2, THEN conjunct2,
             THEN conjunct2, THEN conjunct2, THEN conjunct1]
    by simp
  \<comment> \<open>the fetch fails\<close>
  have m3: "mountR2Storage demo_sandbox () w_nofetch = (Inr True, w_nofetch)" by (simp add: demo_sandbox_def)
  have l3: "listProcesses demo_sandbox w_nofetch = (Inr [gateway_proc], w_nofetch)"
    by (simp add: demo_sandbox_def w_nofetch_def)
  have wt3: "waitForPort demo_sandbox gateway_proc (MOLTBOT_PORT demo_config) (STARTUP_TIMEOUT_MS demo_config) w_nofetch
               = (Inr (), w_nofetch)"
    by (simp add: demo_sandbox_def w_nofetch_def gateway_proc_def)
  have ft3: "containerFetch demo_sandbox (MOLTBOT_PORT demo_config) w_nofetch
               = (Inl (Error ''fetch failed''), w_nofetch\<lparr>fetches := [Some 204]\<rparr>)"
    by (simp add: demo_sandbox_def w_nofetch_def)
  have k3: "kill demo_sandbox gateway_proc (w_nofetch\<lparr>fetches := [Some 204]\<rparr>)
              = (Inr (), w_nofetch\<lparr>procs := Some [], fetches := [Some 204]\<rparr>)"
    by (simp add: demo_sandbox_def w_nofetch_def gateway_proc_def)
  have C: "ensureMoltbotGateway demo_sandbox demo_config () (fresh w_nofetch)
     = launch demo_sandbox demo_config ()
         \<lparr>world = w_nofetch\<lparr>procs := Some [], fetches := [Some 204]\<rparr>,
          trace = [Mounted True, Listed True, WaitedForPort gateway_proc 18789 180000 True, Fetched 18789 None,
                   Killed gateway_proc True]\<rparr>"
    using T [OF m3 l3 f2 wt3 ft3 pair k3, THEN conjunct2, THEN conjunct2, THEN conjunct1]
    by (simp add: demo_config_def ok_def)
  have C': "fst (launch demo_sandbox demo_config ()
         \<lparr>world = w_nofetch\<lparr>procs := Some [], fetches := [Some 204]\<rparr>,
          trace = [Mounted True, Listed True, WaitedForPort gateway_proc 18789 180000 True, Fetched 18789 None,
                   Killed gateway_proc True]\<rparr>) = Inr new_proc"
    by (simp add: prog_simps demo_simps w_nofetch_def)
  \<comment> \<open>the fetch gives 500\<close>
  have m4: "mountR2Storage demo_sandbox () w_loop = (Inr True, w_loop)" by (simp add: demo_sandbox_def)
  have l4: "listProcesses demo_sandbox w_loop = (Inr [gateway_proc], w_loop)"
    by (simp add: demo_sandbox_def w_loop_def)
  have wt4: "waitForPort demo_sandbox gateway_proc (MOLTBOT_PORT demo_config) (STARTUP_TIMEOUT_MS demo_config) w_loop
               = (Inr (), w_loop)"
    by (simp add: demo_sandbox_def w_loop_def gateway_proc_def)
  have ft4: "containerFetch demo_sandbox (MOLTBOT_PORT demo_config) w_loop
               = (Inr \<lparr>http_status = 500\<rparr>, w_loop\<lparr>fetches := [Some 200]\<rparr>)"
    by (simp add: demo_sandbox_def w_loop_def)
  have k4: "kill demo_sandbox gateway_proc (w_loop\<lparr>fetches := [Some 200]\<rparr>)
              = (Inr (), w_loop\<lparr>procs := Some [], fetches := [Some 200]\<rparr>)"
    by (simp add: demo_sandbox_def w_loop_def gateway_proc_def)
  have D: "ensureMoltbotGateway demo_sandbox demo_config () (fresh w_loop)
     = launch demo_sandbox demo_config ()
         \<lparr>world = w_loop\<lparr>procs := Some [], fetches := [Some 200]\<rparr>,
          trace = [Mounted True, Listed True, WaitedForPort gateway_proc 18789 180000 True, Fetched 18789 (Some 500),
                   Killed gateway_proc True]\<rparr>"
    using T [OF m4 l4 f2 wt4 ft4 pair k4, THEN conjunct2, THEN conjunct2, THEN conjunct1]
    by (simp add: demo_config_def ok_def)
  have D': "fst (launch demo_sandbox demo_config ()
         \<lparr>world = w_loop\<lparr>procs := Some [], fetches := [Some 200]\<rparr>,
          trace = [Mounted True, Listed True, WaitedForPort gateway_proc 18789 180000 True, Fetched 18789 (Some 500),
                   Killed gateway_proc True]\<rparr>) = Inr new_proc"
    by (simp add: prog_simps demo_simps w_loop_def)
  \<comment> \<open>the kill fails\<close>
  have m5: "mountR2Storage stubborn_sandbox () w_dead = (Inr True, w_dead)"
    by (simp add: stubborn_sandbox_def demo_sandbox_def)
  have l5: "listProcesses stubborn_sandbox w_dead = (Inr [gateway_proc], w_dead)"
    by (simp add: stubborn_sandbox_def demo_sandbox_def w_dead_def)
  have wt5: "waitForPort stubborn_sandbox gateway_proc (MOLTBOT_PORT demo_config) (STARTUP_TIMEOUT_MS demo_config) w_dead
               = (Inl (Error ''timeout''), w_dead)"
    by (simp add: stubborn_sandbox_def demo_sandbox_def w_dead_def gateway_proc_def)
  have ft5: "containerFetch stubborn_sandbox (MOLTBOT_PORT demo_config) w_dead
               = (Inr \<lparr>http_status = 200\<rparr>, w_dead\<lparr>fetches := []\<rparr>)"
    by (simp add: stubborn_sandbox_def demo_sandbox_def w_dead_def)
  have k5: "kill stubborn_sandbox gateway_proc w_dead = (Inl (Error ''kill failed''), w_dead)"
    by (simp add: stubborn_sandbox_def)
  have E: "ensureMoltbotGateway stubborn_sandbox demo_config () (fresh w_dead)
     = launch stubborn_sandbox demo_config ()
         \<lparr>world = w_dead,
          trace = [Mounted True, Listed True, WaitedForPort gateway_proc 18789 180000 False, Killed gateway_proc False]\<rparr>"
    using T [OF m5 l5 f2 wt5 ft5 k5 pair, THEN conjunct2, THEN conjunct1] by (simp add: demo_config_def ok_def)
  have E': "fst (launch stubborn_sandbox demo_config ()
         \<lparr>world = w_dead,
          trace = [Mounted True, Listed True, WaitedForPort gateway_proc 18789 180000 False, Killed gateway_proc False]\<rparr>)
        = Inr new_proc"
    by (simp add: prog_simps demo_simps stubborn_sandbox_def w_dead_def)
  \<comment> \<open>the start fails, and the start succeeds\<close>
  have ks: "snd (kill_stale startless_sandbox (fresh w_timeout)) = \<lparr>world = w_timeout, trace = [Listed True]\<rparr>"
    by (simp add: prog_simps demo_simps startless_sandbox_def w_timeout_def)
  have sf: "startProcess startless_sandbox ''/usr/local/bin/start-moltbot.sh'' (launch_args startless_sandbox ())
              (world (snd (kill_stale startless_sandbox (fresh w_timeout)))) = (Inl (Error ''start failed''), w_timeout)"
    by (simp add: ks) (simp add: startless_sandbox_def)
  have la: "launch_args startless_sandbox () = None"
    by (simp add: launch_args_def startless_sandbox_def demo_sandbox_def)
  have m6: "mountR2Storage startless_sandbox () w_dead = (Inr True, w_dead)"
    by (simp add: startless_sandbox_def demo_sandbox_def)
  have l6: "listProcesses startless_sandbox w_dead = (Inr [gateway_proc], w_dead)"
    by (simp add: startless_sandbox_def demo_sandbox_def w_dead_def)
  have F: "launch startless_sandbox demo_config () (fresh w_timeout)
     = (Inl (Error ''start failed''),
        \<lparr>world = w_timeout, trace = [Listed True, Started ''/usr/local/bin/start-moltbot.sh'' None None]\<rparr>)"
    using T [where s = "fresh w_timeout" and e = "Error ''start failed''" and w' = w_timeout and cfg = demo_config,
             OF m6 l6 f2 pair pair pair pair, THEN conjunct2, THEN conjunct2, THEN conjunct2, THEN conjunct1] sf
    by (simp add: ks la)
  have ks': "snd (kill_stale demo_sandbox (fresh w_timeout)) = \<lparr>world = w_timeout, trace = [Listed True]\<rparr>"
    by (simp add: prog_simps demo_simps w_timeout_def)
  have lr: "fst (launch demo_sandbox demo_config () (fresh w_dead)) = Inr new_proc"
    by (simp add: prog_simps demo_simps w_dead_def)
  have G: "startProcess demo_sandbox ''/usr/local/bin/start-moltbot.sh'' (launch_args demo_sandbox ())
        (world (snd (kill_stale demo_sandbox (fresh w_timeout)))) = (Inr new_proc, w_timeout)"
    by (simp add: ks') (simp add: demo_sandbox_def new_proc_def)
  have fr: "\<forall>u u'. startProcess demo_sandbox ''/usr/local/bin/start-moltbot.sh'' (launch_args demo_sandbox ()) u
                   \<noteq> (Inr gateway_proc, u')"
    by (simp add: demo_sandbox_def gateway_proc_def)
  have H: "fst (ensureMoltbotGateway demo_sandbox demo_config () (fresh w_loop)) \<noteq> Inr gateway_proc"
    using T [OF m4 l4 f2 wt4 ft4 pair k4, THEN conjunct2, THEN conjunct2, THEN conjunct2, THEN conjunct2,
             THEN conjunct2, THEN conjunct2, THEN conjunct2] fr
    by simp
  show ?thesis
    using A B B' B'' C C' D D' E E' F G fr H k2 k5 wt2 ft3
    by (simp add: demo_config_def)
qed

text \<open>
  Claim C2 on scripted sandboxes: an existing process that answers 500 and one whose fetch
  fails are killed (and gone from the listing) before the launch; with a kill that fails
  the launch follows all the same; a new process that answers 500, or whose fetch fails,
  makes the call throw.
\<close>

theorem loopback_only_never_returned_witness:
  "kill demo_sandbox gateway_proc (w_loop\<lparr>fetches := [Some 200]\<rparr>)
     = (Inr (), w_loop\<lparr>procs := Some [], fetches := [Some 200]\<rparr>)
   \<and> ensureMoltbotGateway demo_sandbox demo_config () (fresh w_loop)
     = launch demo_sandbox demo_config ()
         \<lparr>world = w_loop\<lparr>procs := Some [], fetches := [Some 200]\<rparr>,
          trace = [Mounted True, Listed True, WaitedForPort gateway_proc 18789 180000 True, Fetched 18789 (Some 500),
                   Killed gateway_proc True]\<rparr>
   \<and> containerFetch demo_sandbox 18789 w_nofetch = (Inl (Error ''fetch failed''), w_nofetch\<lparr>fetches := [Some 204]\<rparr>)
   \<and> ensureMoltbotGateway demo_sandbox demo_config () (fresh w_nofetch)
     = launch demo_sandbox demo_config ()
         \<lparr>world = w_nofetch\<lparr>procs := Some [], fetches := [Some 204]\<rparr>,
          trace = [Mounted True, Listed True, WaitedForPort gateway_proc 18789 180000 True, Fetched 18789 None,
                   Killed gateway_proc True]\<rparr>
   \<and> kill stubborn_sandbox gateway_proc (w_loop\<lparr>fetches := [Some 200]\<rparr>)
     = (Inl (Error ''kill failed''), w_loop\<lparr>fetches := [Some 200]\<rparr>)
   \<and> ensureMoltbotGateway stubborn_sandbox demo_config () (fresh w_loop)
     = launch stubborn_sandbox demo_config ()
         \<lparr>world = w_loop\<lparr>fetches := [Some 200]\<rparr>,
          trace = [Mounted True, Listed True, WaitedForPort gateway_proc 18789 180000 True, Fetched 18789 (Some 500),
                   Killed gateway_proc False]\<rparr>
   \<and> ensureMoltbotGateway demo_sandbox demo_config () (fresh w_newloop)
     = (Inl (Error ''Gateway started but not reachable via sandbox network (may be bound to loopback)''),
        \<lparr>world = w_newloop\<lparr>fetches := []\<rparr>,
         trace = [Mounted True, Listed True, Listed True,
                  Started ''/usr/local/bin/start-moltbot.sh'' None (Some new_proc),
                  WaitedForPort new_proc 18789 180000 True, GotLogs new_proc True, Fetched 18789 (Some 500)]\<rparr>)
   \<and> fst (ensureMoltbotGateway demo_sandbox demo_config () (fresh w_nofetch_new))
     = Inl (Error ''Gateway started but not reachable via sandbox network (may be bound to loopback)'')
   \<and> world (snd (ensureMoltbotGateway demo_sandbox demo_config () (fresh w_nofetch_new))) = w_nofetch_new\<lparr>fetches := []\<rparr>
   \<and> fst (ensureMoltbotGateway demo_sandbox demo_config () (fresh w_loop)) = Inr new_proc
   \<and> trace (snd (ensureMoltbotGateway demo_sandbox demo_config () (fresh w_loop)))
         = [Mounted True, Listed True, WaitedForPort gateway_proc 18789 180000 True, Fetched 18789 (Some 500),
            Killed gateway_proc True, Listed True,
            Started ''/usr/local/bin/start-moltbot.sh'' None (Some new_proc),
            WaitedForPort new_proc 18789 180000 True, GotLogs new_proc True, Fetched 18789 (Some 200)]"
proof -
  note T = loopback_only_never_returned
  have f: "find_loop [gateway_proc] = Some gateway_proc"
    by (simp add: isGatewayProcess_def isCliCommand_def is_live_def gateway_proc_def)
  \<comment> \<open>the existing process answers 500\<close>
  have m1: "mountR2Storage demo_sandbox () w_loop = (Inr True, w_loop)" by (simp add: demo_sandbox_def)
  have l1: "listProcesses demo_sandbox w_loop = (Inr [gateway_proc], w_loop)"
    by (simp add: demo_sandbox_def w_loop_def)
  have wt1: "waitForPort demo_sandbox gateway_proc (MOLTBOT_PORT demo_config) (STARTUP_TIMEOUT_MS demo_config) w_loop
               = (Inr (), w_loop)"
    by (simp add: demo_sandbox_def w_loop_def gateway_proc_def)
  have ft1: "containerFetch demo_sandbox (MOLTBOT_PORT demo_config) w_loop
               = (Inr \<lparr>http_status = 500\<rparr>, w_loop\<lparr>fetches := [Some 200]\<rparr>)"
    by (simp add: demo_sandbox_def w_loop_def)
  have k1: "kill demo_sandbox gateway_proc (w_loop\<lparr>fetches := [Some 200]\<rparr>)
              = (Inr (), w_loop\<lparr>procs := Some [], fetches := [Some 200]\<rparr>)"
    by (simp add: demo_sandbox_def w_loop_def gateway_proc_def)
  have A: "ensureMoltbotGateway demo_sandbox demo_config () (fresh w_loop)
     = launch demo_sandbox demo_config ()
         \<lparr>world = w_loop\<lparr>procs := Some [], fetches := [Some 200]\<rparr>,
          trace = [Mounted True, Listed True, WaitedForPort gateway_proc 18789 180000 True, Fetched 18789 (Some 500),
                   Killed gateway_proc True]\<rparr>"
    using T [where sb = demo_sandbox and env = "()" and w = w_loop and b = True and ?w1.0 = w_loop
               and ps = "[gateway_proc]" and ?w2.0 = w_loop and p = gateway_proc and cfg = demo_config
               and ?w3.0 = w_loop and rf = "Inr \<lparr>http_status = 500\<rparr>" and ?w4.0 = "w_loop\<lparr>fetches := [Some 200]\<rparr>"
               and k = "Inr ()" and ?w5.0 = "w_loop\<lparr>procs := Some [], fetches := [Some 200]\<rparr>",
             THEN conjunct1]
      m1 l1 f wt1 ft1 k1
    by (simp add: ok_def demo_config_def)
  \<comment> \<open>the fetch for the existing process fails\<close>
  have m2: "mountR2Storage demo_sandbox () w_nofetch = (Inr True, w_nofetch)" by (simp add: demo_sandbox_def)
  have l2: "listProcesses demo_sandbox w_nofetch = (Inr [gateway_proc], w_nofetch)"
    by (simp add: demo_sandbox_def w_nofetch_def)
  have wt2: "waitForPort demo_sandbox gateway_proc (MOLTBOT_PORT demo_config) (STARTUP_TIMEOUT_MS demo_config) w_nofetch
               = (Inr (), w_nofetch)"
    by (simp add: demo_sandbox_def w_nofetch_def gateway_proc_def)
  have ft2: "containerFetch demo_sandbox (MOLTBOT_PORT demo_config) w_nofetch
               = (Inl (Error ''fetch failed''), w_nofetch\<lparr>fetches := [Some 204]\<rparr>)"
    by (simp add: demo_sandbox_def w_nofetch_def)
  have k2: "kill demo_sandbox gateway_proc (w_nofetch\<lparr>fetches := [Some 204]\<rparr>)
              = (Inr (), w_nofetch\<lparr>procs := Some [], fetches := [Some 204]\<rparr>)"
    by (simp add: demo_sandbox_def w_nofetch_def gateway_proc_def)
  have B: "ensureMoltbotGateway demo_sandbox demo_config () (fresh w_nofetch)
     = launch demo_sandbox demo_config ()
         \<lparr>world = w_nofetch\<lparr>procs := Some [], fetches := [Some 204]\<rparr>,
          trace = [Mounted True, Listed True, WaitedForPort gateway_proc 18789 180000 True, Fetched 18789 None,
                   Killed gateway_proc True]\<rparr>"
    using T [where sb = demo_sandbox and env = "()" and w = w_nofetch and b = True and ?w1.0 = w_nofetch
               and ps = "[gateway_proc]" and ?w2.0 = w_nofetch and p = gateway_proc and cfg = demo_config
               and ?w3.0 = w_nofetch and rf = "Inl (Error ''fetch failed'')" and ?w4.0 = "w_nofetch\<lparr>fetches := [Some 204]\<rparr>"
               and k = "Inr ()" and ?w5.0 = "w_nofetch\<lparr>procs := Some [], fetches := [Some 204]\<rparr>",
             THEN conjunct1]
      m2 l2 f wt2 ft2 k2
    by (simp add: ok_def demo_config_def)
  \<comment> \<open>the kill fails\<close>
  have m3: "mountR2Storage stubborn_sandbox () w_loop = (Inr True, w_loop)"
    by (simp add: stubborn_sandbox_def demo_sandbox_def)
  have l3: "listProcesses stubborn_sandbox w_loop = (Inr [gateway_proc], w_loop)"
    by (simp add: stubborn_sandbox_def demo_sandbox_def w_loop_def)
  have wt3: "waitForPort stubborn_sandbox gateway_proc (MOLTBOT_PORT demo_config) (STARTUP_TIMEOUT_MS demo_config) w_loop
               = (Inr (), w_loop)"
    by (simp add: stubborn_sandbox_def demo_sandbox_def w_loop_def gateway_proc_def)
  have ft3: "containerFetch stubborn_sandbox (MOLTBOT_PORT demo_config) w_loop
               = (Inr \<lparr>http_status = 500\<rparr>, w_loop\<lparr>fetches := [Some 200]\<rparr>)"
    by (simp add: stubborn_sandbox_def demo_sandbox_def w_loop_def)
  have k3: "kill stubborn_sandbox gateway_proc (w_loop\<lparr>fetches := [Some 200]\<rparr>)
              = (Inl (Error ''kill failed''), w_loop\<lparr>fetches := [Some 200]\<rparr>)"
    by (simp add: stubborn_sandbox_def)
  have C: "ensureMoltbotGateway stubborn_sandbox demo_config () (fresh w_loop)
     = launch stubborn_sandbox demo_config ()
         \<lparr>world = w_loop\<lparr>fetches := [Some 200]\<rparr>,
          trace = [Mounted True, Listed True, WaitedForPort gateway_proc 18789 180000 True, Fetched 18789 (Some 500),
                   Killed gateway_proc False]\<rparr>"
    using T [where sb = stubborn_sandbox and env = "()" and w = w_loop and b = True and ?w1.0 = w_loop
               and ps = "[gateway_proc]" and ?w2.0 = w_loop and p = gateway_proc and cfg = demo_config
               and ?w3.0 = w_loop and rf = "Inr \<lparr>http_status = 500\<rparr>" and ?w4.0 = "w_loop\<lparr>fetches := [Some 200]\<rparr>"
               and k = "Inl (Error ''kill failed'')" and ?w5.0 = "w_loop\<lparr>fetches := [Some 200]\<rparr>",
             THEN conjunct1]
      m3 l3 f wt3 ft3 k3
    by (simp add: ok_def demo_config_def)
  \<comment> \<open>the new process answers 500\<close>
  let ?t1 = "\<lparr>world = w_newloop, trace = [Mounted True, Listed True]\<rparr>"
  let ?t2 = "\<lparr>world = w_newloop, trace = [Mounted True, Listed True, Listed True,
                  Started ''/usr/local/bin/start-moltbot.sh'' None (Some new_proc)]\<rparr>"
  let ?t3 = "\<lparr>world = w_newloop, trace = [Mounted True, Listed True, Listed True,
                  Started ''/usr/local/bin/start-moltbot.sh'' None (Some new_proc),
                  WaitedForPort new_proc 18789 180000 True, GotLogs new_proc True]\<rparr>"
  let ?t4 = "\<lparr>world = w_newloop\<lparr>fetches := []\<rparr>, trace = [Mounted True, Listed True, Listed True,
                  Started ''/usr/local/bin/start-moltbot.sh'' None (Some new_proc),
                  WaitedForPort new_proc 18789 180000 True, GotLogs new_proc True, Fetched 18789 (Some 500)]\<rparr>"
  have d: "discover_and_verify demo_sandbox demo_config () (fresh w_newloop) = (Inr None, ?t1)"
    by (simp add: prog_simps demo_simps w_newloop_def)
  have st: "do_start demo_sandbox ''/usr/local/bin/start-moltbot.sh'' (launch_args demo_sandbox ()) (snd (kill_stale demo_sandbox ?t1))
              = (Inr new_proc, ?t2)"
    by (simp add: prog_simps demo_simps w_newloop_def launch_args_def)
  have wr: "wait_ready demo_sandbox demo_config new_proc ?t2 = (Inr (), ?t3)"
    by (simp add: prog_simps demo_simps w_newloop_def)
  have ft': "do_fetch demo_sandbox demo_config ?t3 = (Inr \<lparr>http_status = 500\<rparr>, ?t4)"
    by (simp add: demo_simps w_newloop_def)
  have D: "ensureMoltbotGateway demo_sandbox demo_config () (fresh w_newloop)
     = (Inl (Error ''Gateway started but not reachable via sandbox network (may be bound to loopback)''), ?t4)"
    using T [where sb = demo_sandbox and env = "()" and cfg = demo_config and ?s0.0 = "fresh w_newloop" and s = ?t1
               and q = new_proc and ?t2.0 = ?t2 and ?t3.0 = ?t3 and ?r5.0 = "Inr \<lparr>http_status = 500\<rparr>" and ?t4.0 = ?t4,
             THEN conjunct2, THEN conjunct1]
      d st wr ft'
    by simp
  \<comment> \<open>the fetch for the new process fails\<close>
  let ?u1 = "\<lparr>world = w_nofetch_new, trace = [Mounted True, Listed True]\<rparr>"
  have d2: "discover_and_verify demo_sandbox demo_config () (fresh w_nofetch_new) = (Inr None, ?u1)"
    by (simp add: prog_simps demo_simps w_nofetch_new_def)
  have ks: "world (snd (kill_stale demo_sandbox ?u1)) = w_nofetch_new"
    by (simp add: prog_simps demo_simps w_nofetch_new_def)
  have st2: "startProcess demo_sandbox ''/usr/local/bin/start-moltbot.sh'' (launch_args demo_sandbox ())
               (world (snd (kill_stale demo_sandbox ?u1))) = (Inr new_proc, w_nofetch_new)"
    by (simp add: ks) (simp add: demo_sandbox_def new_proc_def)
  have wt4: "waitForPort demo_sandbox new_proc (MOLTBOT_PORT demo_config) (STARTUP_TIMEOUT_MS demo_config) w_nofetch_new
               = (Inr (), w_nofetch_new)"
    by (simp add: demo_sandbox_def w_nofetch_new_def new_proc_def)
  have lg4: "getLogs demo_sandbox new_proc w_nofetch_new = (Inr \<lparr>stdout = ''ready'', stderr = []\<rparr>, w_nofetch_new)"
    by (simp add: demo_sandbox_def w_nofetch_new_def)
  have ft4: "containerFetch demo_sandbox (MOLTBOT_PORT demo_config) w_nofetch_new
               = (Inl (Error ''fetch failed''), w_nofetch_new\<lparr>fetches := []\<rparr>)"
    by (simp add: demo_sandbox_def w_nofetch_new_def)
  have E: "fst (ensureMoltbotGateway demo_sandbox demo_config () (fresh w_nofetch_new))
     = Inl (Error ''Gateway started but not reachable via sandbox network (may be bound to loopback)'')
   \<and> world (snd (ensureMoltbotGateway demo_sandbox demo_config () (fresh w_nofetch_new))) = w_nofetch_new\<lparr>fetches := []\<rparr>"
    using T [where sb = demo_sandbox and env = "()" and cfg = demo_config and ?s0.0 = "fresh w_nofetch_new" and s = ?u1
               and q = new_proc and ?u2.0 = w_nofetch_new and ?u3.0 = w_nofetch_new
               and lg = "\<lparr>stdout = ''ready'', stderr = []\<rparr>" and ?u4.0 = w_nofetch_new
               and rf' = "Inl (Error ''fetch failed'')" and ?u5.0 = "w_nofetch_new\<lparr>fetches := []\<rparr>",
             THEN conjunct2, THEN conjunct2, THEN conjunct2]
      d2 st2 wt4 lg4 ft4
    by simp
  have c: "fst (ensureMoltbotGateway demo_sandbox demo_config () (fresh w_loop)) = Inr new_proc"
    by (simp add: prog_simps demo_simps w_loop_def)
  have e: "trace (snd (ensureMoltbotGateway demo_sandbox demo_config () (fresh w_loop)))
         = [Mounted True, Listed True, WaitedForPort gateway_proc 18789 180000 True, Fetched 18789 (Some 500),
            Killed gateway_proc True, Listed True,
            Started ''/usr/local/bin/start-moltbot.sh'' None (Some new_proc),
            WaitedForPort new_proc 18789 180000 True, GotLogs new_proc True, Fetched 18789 (Some 200)]"
    by (simp add: prog_simps demo_simps w_loop_def)
  show ?thesis using A B C D E c e k1 k3 ft2 by (simp add: demo_config_def)
qed

theorem launch_requires_log_fetch_witness:
  "discover_and_verify demo_sandbox demo_config () (fresh w_nologs)
      = (Inr None, \<lparr>world = w_nologs, trace = [Mounted True, Listed True]\<rparr>)
   \<and> do_wait demo_sandbox demo_config new_proc
        \<lparr>world = w_nologs, trace = [Mounted True, Listed True, Listed True,
                  Started ''/usr/local/bin/start-moltbot.sh'' None (Some new_proc)]\<rparr>
      = (Inr (), \<lparr>world = w_nologs, trace = [Mounted True, Listed True, Listed True,
                  Started ''/usr/local/bin/start-moltbot.sh'' None (Some new_proc),
                  WaitedForPort new_proc 18789 180000 True]\<rparr>)
   \<and> fst (ensureMoltbotGateway demo_sandbox demo_config () (fresh w_nologs)) = Inl (Error ''getLogs failed'')"
proof -
  let ?t1 = "\<lparr>world = w_nologs, trace = [Mounted True, Listed True]\<rparr>"
  let ?t2 = "\<lparr>world = w_nologs, trace = [Mounted True, Listed True, Listed True,
                  Started ''/usr/local/bin/start-moltbot.sh'' None (Some new_proc)]\<rparr>"
  let ?t3 = "\<lparr>world = w_nologs, trace = [Mounted True, Listed True, Listed True,
                  Started ''/usr/local/bin/start-moltbot.sh'' None (Some new_proc),
                  WaitedForPort new_proc 18789 180000 True]\<rparr>"
  let ?t4 = "\<lparr>world = w_nologs, trace = [Mounted True, Listed True, Listed True,
                  Started ''/usr/local/bin/start-moltbot.sh'' None (Some new_proc),
                  WaitedForPort new_proc 18789 180000 True, GotLogs new_proc False]\<rparr>"
  have d: "discover_and_verify demo_sandbox demo_config () (fresh w_nologs) = (Inr None, ?t1)"
    by (simp add: prog_simps demo_simps w_nologs_def)
  have st: "do_start demo_sandbox ''/usr/local/bin/start-moltbot.sh'' (launch_args demo_sandbox ()) (snd (kill_stale demo_sandbox ?t1))
              = (Inr new_proc, ?t2)"
    by (simp add: prog_simps demo_simps w_nologs_def launch_args_def)
  have wt: "do_wait demo_sandbox demo_config new_proc ?t2 = (Inr (), ?t3)"
    by (simp add: demo_simps w_nologs_def)
  have lg: "do_logs demo_sandbox new_proc ?t3 = (Inl (Error ''getLogs failed''), ?t4)"
    by (simp add: demo_simps w_nologs_def)
  show ?thesis
    using launch_requires_log_fetch [OF d st wt lg] d wt by simp
qed

text \<open>
  Claim C7, evaluated. The new process never opens its port and its captured stderr is
  \<^verbatim>\<open>boom\<close>: the call throws the error of \<^verbatim>\<open>waitForPort\<close>, not the error
  that carries the stderr, although the logs were read successfully. Nothing is started a
  second time.
\<close>

theorem launch_timeout_rethrows_wait_error:
  "ensureMoltbotGateway demo_sandbox demo_config () (fresh w_timeout)
     = (Inl (Error ''timeout''),
        \<lparr>world = w_timeout,
         trace = [Mounted True, Listed True, Listed True,
                  Started ''/usr/local/bin/start-moltbot.sh'' None (Some new_proc),
                  WaitedForPort new_proc 18789 180000 False, GotLogs new_proc True]\<rparr>)
   \<and> getLogs demo_sandbox new_proc w_timeout = (Inr \<lparr>stdout = [], stderr = ''boom''\<rparr>, w_timeout)
   \<and> startup_failed_message \<lparr>stdout = [], stderr = ''boom''\<rparr> = ''Moltbot gateway failed to start. Stderr: boom''"
  by (simp add: prog_simps demo_simps w_timeout_def startup_failed_message_def)

section \<open>Properties of the relay\<close>

lemmas codec_simps = json_codec_def parse_json_def quote_chr_def backslash_chr_def is_ws_def scan_literal_def
  scan_number_def is_digit_def digit_val_def quote_string_def escape_chr_def show_int_def show_nat.simps

lemma parse_connect_frame:
  "parse_json connect_frame = Some (JObj [(''type'', JStr ''req''), (''method'', JStr ''connect''),
     (''params'', JObj [(''deviceId'', JStr ''x''), (''signature'', JStr ''y'')])])"
  by (simp add: codec_simps connect_frame_def)

lemma try_connect_not_request:
  assumes "\<not> is_connect_request cdc (Text s)"
  shows "try_connect cdc tok s \<noteq> Inr (Some msg)"
proof (cases "JSON_parse cdc s")
  case None
  then show ?thesis by (simp add: try_connect_def)
next
  case (Some v)
  show ?thesis
  proof (cases v)
    case (JObj kvs)
    then have "map_of kvs ''type'' \<noteq> Some (JStr ''req'') \<or> map_of kvs ''method'' \<noteq> Some (JStr ''connect'')"
      using assms Some by (simp add: is_connect_request_def)
    then show ?thesis using Some JObj by (auto simp: try_connect_def)
  qed (simp_all add: Some try_connect_def)
qed

lemma on_client_message_verbatim:
  assumes "\<not> is_connect_request cdc data \<or> tok = None \<or> tok = Some []"
  shows "on_client_message cdc tok True data = [data]"
proof (cases data)
  case (Binary b)
  then show ?thesis by (simp add: on_client_message_def send_if_open_def)
next
  case (Text s)
  show ?thesis
  proof (cases tok)
    case None
    then show ?thesis using Text by (simp add: on_client_message_def send_if_open_def)
  next
    case (Some t)
    show ?thesis
    proof (cases "t = []")
      case True
      then show ?thesis using Text Some by (simp add: on_client_message_def send_if_open_def)
    next
      case False
      then have "\<not> is_connect_request cdc (Text s)" using assms Some Text by simp
      from try_connect_not_request[OF this] show ?thesis
        using Text Some False
        by (auto simp: on_client_message_def send_if_open_def split: sum.splits option.splits)
    qed
  qed
qed

lemma connect_body_object:
  assumes "map_of kvs ''params'' = Some p" and "p = JObj pkvs \<or> (\<not> truthy p \<and> pkvs = [])"
  shows "connect_body t (JObj kvs) =
           Inr (JObj (AList.update ''params''
                  (JObj (AList.update ''auth'' (JObj [(''token'', JStr t)])
                     (AList.delete ''device'' (AList.delete ''signature''
                        (AList.delete ''devicePublicKey'' (AList.delete ''deviceId'' pkvs))))))
                  kvs))"
  using assms by (auto simp: connect_body_def strip_and_inject_def Let_def)

lemma on_client_message_rewrite:
  assumes "t \<noteq> []" and "JSON_parse cdc s = Some (JObj kvs)"
    and "map_of kvs ''type'' = Some (JStr ''req'')" and "map_of kvs ''method'' = Some (JStr ''connect'')"
    and "map_of kvs ''params'' = Some p" and "p = JObj pkvs \<or> (\<not> truthy p \<and> pkvs = [])"
  shows "on_client_message cdc (Some t) True (Text s) =
           [Text (JSON_stringify cdc (JObj (AList.update ''params''
                  (JObj (AList.update ''auth'' (JObj [(''token'', JStr t)])
                     (AList.delete ''device'' (AList.delete ''signature''
                        (AList.delete ''devicePublicKey'' (AList.delete ''deviceId'' pkvs))))))
                  kvs)))]"
  using assms(1-4) connect_body_object[OF assms(5,6), of t]
  by (simp add: on_client_message_def try_connect_def send_if_open_def)

lemma on_client_message_one: "length (on_client_message cdc tok True data) = 1"
  by (auto simp: on_client_message_def send_if_open_def split: frame.splits option.splits sum.splits)

lemma relay_client_open:
  "relay_client cdc tok (map (Pair True) fs) = map (\<lambda>f. hd (on_client_message cdc tok True f)) fs"
proof (induction fs)
  case Nil
  then show ?case by (simp add: relay_client_def)
next
  case (Cons f fs)
  obtain x where "on_client_message cdc tok True f = [x]"
    using on_client_message_one[of cdc tok f] by (cases "on_client_message cdc tok True f") auto
  then show ?case using Cons by (simp add: relay_client_def)
qed

text \<open>
  Claim C4, as amended. While the backend socket is open, every frame of the client gives
  exactly one frame to the backend, in the order of arrival. A frame that is not a connect
  request (a string that does not parse, a parsed frame of another type or method, binary
  data), and any frame when no token is configured, is sent as it came. A connect request
  whose \<^verbatim>\<open>params\<close> is an object, or is present and falsy, is sent rewritten, whatever
  its position \<open>i\<close> in the session: the four device fields removed, \<^verbatim>\<open>auth\<close> set to
  the token alone. A frame that arrives while the backend socket is not open is not sent.
\<close>

theorem client_frames_rewritten_or_verbatim:
  "length (relay_client cdc tok (map (Pair True) fs)) = length fs
   \<and> (i < length fs \<and> (\<not> is_connect_request cdc (fs ! i) \<or> tok = None \<or> tok = Some []) \<longrightarrow>
         relay_client cdc tok (map (Pair True) fs) ! i = fs ! i)
   \<and> (i < length fs \<and> tok = Some t \<and> t \<noteq> [] \<and> fs ! i = Text s \<and> JSON_parse cdc s = Some (JObj kvs)
         \<and> map_of kvs ''type'' = Some (JStr ''req'') \<and> map_of kvs ''method'' = Some (JStr ''connect'')
         \<and> map_of kvs ''params'' = Some p \<and> (p = JObj pkvs \<or> (\<not> truthy p \<and> pkvs = [])) \<longrightarrow>
         relay_client cdc tok (map (Pair True) fs) ! i =
           Text (JSON_stringify cdc (JObj (AList.update ''params''
                  (JObj (AList.update ''auth'' (JObj [(''token'', JStr t)])
                     (AList.delete ''device'' (AList.delete ''signature''
                        (AList.delete ''devicePublicKey'' (AList.delete ''deviceId'' pkvs))))))
                  kvs))))
   \<and> on_client_message cdc tok False data = []"
proof (intro conjI impI)
  show "length (relay_client cdc tok (map (Pair True) fs)) = length fs"
    by (simp add: relay_client_open)
next
  assume "i < length fs \<and> (\<not> is_connect_request cdc (fs ! i) \<or> tok = None \<or> tok = Some [])"
  then show "relay_client cdc tok (map (Pair True) fs) ! i = fs ! i"
    using on_client_message_verbatim[of cdc "fs ! i" tok] by (simp add: relay_client_open)
next
  assume h: "i < length fs \<and> tok = Some t \<and> t \<noteq> [] \<and> fs ! i = Text s \<and> JSON_parse cdc s = Some (JObj kvs)
         \<and> map_of kvs ''type'' = Some (JStr ''req'') \<and> map_of kvs ''method'' = Some (JStr ''connect'')
         \<and> map_of kvs ''params'' = Some p \<and> (p = JObj pkvs \<or> (\<not> truthy p \<and> pkvs = []))"
  then show "relay_client cdc tok (map (Pair True) fs) ! i =
           Text (JSON_stringify cdc (JObj (AList.update ''params''
                  (JObj (AList.update ''auth'' (JObj [(''token'', JStr t)])
                     (AList.delete ''device'' (AList.delete ''signature''
                        (AList.delete ''devicePublicKey'' (AList.delete ''deviceId'' pkvs))))))
                  kvs)))"
    using on_client_message_rewrite[of t cdc s kvs p pkvs] by (simp add: relay_client_open)
next
  show "on_client_message cdc tok False data = []"
    by (auto simp: on_client_message_def send_if_open_def split: frame.splits option.splits sum.splits)
qed

lemma try_transform_error_text:
  assumes "JSON_parse cdc s = Some (JObj kvs)" and "map_of kvs ''error'' = Some (JObj ekvs)"
    and "map_of ekvs ''message'' = Some (JStr m)" and "m \<noteq> []"
  shows "try_transform cdc host s =
           Inr (Some (JSON_stringify cdc
             (JObj (AList.update ''error'' (JObj (AList.update ''message'' (JStr (transformErrorMessage m host)) ekvs)) kvs))))"
  using assms by (simp add: try_transform_def error_message_def)

lemma try_transform_no_error:
  assumes "JSON_parse cdc s = Some v"
    and "\<not> (\<exists>kvs ekvs m. v = JObj kvs \<and> map_of kvs ''error'' = Some (JObj ekvs) \<and> map_of ekvs ''message'' = Some m \<and> truthy m)"
  shows "try_transform cdc host s = Inr None \<or> (\<exists>e. try_transform cdc host s = Inl e)"
proof (cases v)
  case (JObj kvs)
  show ?thesis
  proof (cases "map_of kvs ''error''")
    case None
    then show ?thesis using assms(1) JObj by (simp add: try_transform_def error_message_def)
  next
    case (Some errv)
    show ?thesis
    proof (cases errv)
      case (JObj ekvs)
      show ?thesis
      proof (cases "map_of ekvs ''message''")
        case None
        then show ?thesis using assms(1) \<open>v = JObj kvs\<close> Some JObj by (simp add: try_transform_def error_message_def)
      next
        case (Some m)
        then have "\<not> truthy m" using assms(2) \<open>v = JObj kvs\<close> \<open>map_of kvs ''error'' = Some errv\<close> JObj by blast
        then show ?thesis using assms(1) \<open>v = JObj kvs\<close> \<open>map_of kvs ''error'' = Some errv\<close> JObj Some
          by (simp add: try_transform_def error_message_def)
      qed
    qed (simp_all add: assms(1) \<open>v = JObj kvs\<close> Some try_transform_def error_message_def)
  qed
qed (simp_all add: assms(1) try_transform_def error_message_def)

text \<open>
  Claim C5, as amended. For a frame of the backend that arrives while the client socket is
  open: if it is a string that
  parses to an object whose \<^verbatim>\<open>error\<close> is an object with a non-empty string
  \<^verbatim>\<open>message\<close>, the frame sent to the client is the parsed frame printed again with
  the message replaced by \<open>transformErrorMessage\<close> of it; that function gives the token
  hint when the text contains \<^verbatim>\<open>gateway token missing\<close> or \<^verbatim>\<open>gateway token mismatch\<close>,
  else the pairing hint when it contains \<^verbatim>\<open>pairing required\<close>, else the text itself.
  A string that does not parse, a parsed frame without a truthy \<^verbatim>\<open>error.message\<close> and
  binary data are sent as they came. A frame that arrives while the client socket is not
  open is not sent at all.
\<close>

theorem backend_error_text_rewritten:
  "(JSON_parse cdc s = Some (JObj kvs) \<and> map_of kvs ''error'' = Some (JObj ekvs)
      \<and> map_of ekvs ''message'' = Some (JStr m) \<and> m \<noteq> [] \<longrightarrow>
      on_container_message cdc host True (Text s) =
        [Text (JSON_stringify cdc
           (JObj (AList.update ''error'' (JObj (AList.update ''message'' (JStr (transformErrorMessage m host)) ekvs)) kvs)))])
   \<and> (str_includes m ''gateway token missing'' \<or> str_includes m ''gateway token mismatch'' \<longrightarrow>
        transformErrorMessage m host = ''Invalid or missing token. Visit https://'' @ host @ ''?token={REPLACE_WITH_YOUR_TOKEN}'')
   \<and> (\<not> str_includes m ''gateway token missing'' \<and> \<not> str_includes m ''gateway token mismatch''
        \<and> str_includes m ''pairing required'' \<longrightarrow>
        transformErrorMessage m host = ''Pairing required. Visit https://'' @ host @ ''/_admin/'')
   \<and> (\<not> str_includes m ''gateway token missing'' \<and> \<not> str_includes m ''gateway token mismatch''
        \<and> \<not> str_includes m ''pairing required'' \<longrightarrow>
        transformErrorMessage m host = m)
   \<and> (JSON_parse cdc s = None \<longrightarrow> on_container_message cdc host True (Text s) = [Text s])
   \<and> (\<forall>v. JSON_parse cdc s = Some v
        \<and> \<not> (\<exists>kvs ekvs m. v = JObj kvs \<and> map_of kvs ''error'' = Some (JObj ekvs)
                \<and> map_of ekvs ''message'' = Some m \<and> truthy m) \<longrightarrow>
        on_container_message cdc host True (Text s) = [Text s])
   \<and> on_container_message cdc host True (Binary b) = [Binary b]
   \<and> on_container_message cdc host False data = []"
proof (intro conjI impI allI)
  assume "JSON_parse cdc s = Some (JObj kvs) \<and> map_of kvs ''error'' = Some (JObj ekvs)
      \<and> map_of ekvs ''message'' = Some (JStr m) \<and> m \<noteq> []"
  then show "on_container_message cdc host True (Text s) =
        [Text (JSON_stringify cdc
           (JObj (AList.update ''error'' (JObj (AList.update ''message'' (JStr (transformErrorMessage m host)) ekvs)) kvs)))]"
    using try_transform_error_text[of cdc s kvs ekvs m host]
    by (simp add: on_container_message_def send_if_open_def)
next
  assume "JSON_parse cdc s = None"
  then show "on_container_message cdc host True (Text s) = [Text s]"
    by (simp add: on_container_message_def send_if_open_def try_transform_def)
next
  fix v
  assume "JSON_parse cdc s = Some v
        \<and> \<not> (\<exists>kvs ekvs m. v = JObj kvs \<and> map_of kvs ''error'' = Some (JObj ekvs)
                \<and> map_of ekvs ''message'' = Some m \<and> truthy m)"
  then have "try_transform cdc host s = Inr None \<or> (\<exists>e. try_transform cdc host s = Inl e)"
    using try_transform_no_error[of cdc s v host] by blast
  then show "on_container_message cdc host True (Text s) = [Text s]"
    by (auto simp: on_container_message_def send_if_open_def)
qed (simp_all add: transformErrorMessage_def token_hint_def pairing_hint_def on_container_message_def send_if_open_def)

text \<open>
  Claim C5 as stated fails: the error frame of the scenario comes from the backend while
  the client socket is not open, and nothing reaches the client, neither the frame nor a
  rewritten one.
\<close>

theorem backend_frame_dropped_when_client_not_open:
  \<open>JSON_parse json_codec ''{"error":{"message":"gateway token mismatch"}}''
      = Some (JObj [(''error'', JObj [(''message'', JStr ''gateway token mismatch'')])])
   \<and> on_container_message json_codec ''bot.example'' False (Text ''{"error":{"message":"gateway token mismatch"}}'') = []
   \<and> on_container_message json_codec ''bot.example'' False (Text ''{"error":{"message":"gateway token mismatch"}}'')
      \<noteq> [Text ''{"error":{"message":"Invalid or missing token. Visit https://bot.example?token={REPLACE_WITH_YOUR_TOKEN}"}}'']
   \<and> on_container_message json_codec ''bot.example'' False (Text ''pong'') \<noteq> [Text ''pong'']\<close>
  by (simp add: on_container_message_def send_if_open_def codec_simps)

text \<open>
  Claim C5 as amended, on the frame of the scenario, on frames that pass through, and on a
  frame that arrives while the client socket is not open.
\<close>

theorem backend_error_text_rewritten_witness:
  \<open>JSON_parse json_codec ''{"error":{"message":"gateway token mismatch"}}''
      = Some (JObj [(''error'', JObj [(''message'', JStr ''gateway token mismatch'')])])
   \<and> on_container_message json_codec ''bot.example'' True (Text ''{"error":{"message":"gateway token mismatch"}}'')
      = [Text ''{"error":{"message":"Invalid or missing token. Visit https://bot.example?token={REPLACE_WITH_YOUR_TOKEN}"}}'']
   \<and> transformErrorMessage ''unauthorized: gateway token mismatch (1008)'' ''bot.example''
      = ''Invalid or missing token. Visit https://bot.example?token={REPLACE_WITH_YOUR_TOKEN}''
   \<and> transformErrorMessage ''pairing required'' ''bot.example'' = ''Pairing required. Visit https://bot.example/_admin/''
   \<and> transformErrorMessage ''rate limited'' ''bot.example'' = ''rate limited''
   \<and> JSON_parse json_codec ''pong'' = None
   \<and> on_container_message json_codec ''bot.example'' True (Text ''pong'') = [Text ''pong'']
   \<and> JSON_parse json_codec ''{"type":"res","ok":true}'' = Some (JObj [(''type'', JStr ''res''), (''ok'', JBool True)])
   \<and> on_container_message json_codec ''bot.example'' True (Text ''{"type":"res","ok":true}'')
      = [Text ''{"type":"res","ok":true}'']
   \<and> on_container_message json_codec ''bot.example'' False (Text ''{"type":"res","ok":true}'') = []\<close>
proof -
  have p1: \<open>JSON_parse json_codec ''{"error":{"message":"gateway token mismatch"}}''
      = Some (JObj [(''error'', JObj [(''message'', JStr ''gateway token mismatch'')])])\<close>
    by (simp add: codec_simps)
  have p2: "JSON_parse json_codec ''pong'' = None"
    by (simp add: codec_simps)
  have p3: \<open>JSON_parse json_codec ''{"type":"res","ok":true}'' = Some (JObj [(''type'', JStr ''res''), (''ok'', JBool True)])\<close>
    by (simp add: codec_simps)
  have s1: \<open>JSON_stringify json_codec (JObj [(''error'', JObj [(''message'',
        JStr ''Invalid or missing token. Visit https://bot.example?token={REPLACE_WITH_YOUR_TOKEN}'')])])
      = ''{"error":{"message":"Invalid or missing token. Visit https://bot.example?token={REPLACE_WITH_YOUR_TOKEN}"}}''\<close>
    by (simp add: codec_simps)
  have i1: "str_includes ''gateway token mismatch'' ''gateway token mismatch''" by simp
  have i2: "str_includes ''unauthorized: gateway token mismatch (1008)'' ''gateway token mismatch''" by simp
  have i3: "\<not> str_includes ''pairing required'' ''gateway token missing'' \<and> \<not> str_includes ''pairing required'' ''gateway token mismatch''
             \<and> str_includes ''pairing required'' ''pairing required''" by simp
  have i4: "\<not> str_includes ''rate limited'' ''gateway token missing'' \<and> \<not> str_includes ''rate limited'' ''gateway token mismatch''
             \<and> \<not> str_includes ''rate limited'' ''pairing required''" by simp
  note T = backend_error_text_rewritten
  have a: \<open>on_container_message json_codec ''bot.example'' True (Text ''{"error":{"message":"gateway token mismatch"}}'')
      = [Text ''{"error":{"message":"Invalid or missing token. Visit https://bot.example?token={REPLACE_WITH_YOUR_TOKEN}"}}'']\<close>
    using T [of json_codec \<open>''{"error":{"message":"gateway token mismatch"}}''\<close>
          "[(''error'', JObj [(''message'', JStr ''gateway token mismatch'')])]"
          "[(''message'', JStr ''gateway token mismatch'')]" "''gateway token mismatch''" "''bot.example''"]
       p1 i1 s1
    by simp
  have b: "transformErrorMessage ''unauthorized: gateway token mismatch (1008)'' ''bot.example''
      = ''Invalid or missing token. Visit https://bot.example?token={REPLACE_WITH_YOUR_TOKEN}''"
    using T [of json_codec "''pong''" _ _ "''unauthorized: gateway token mismatch (1008)''" "''bot.example''"] i2 by simp
  have c: "transformErrorMessage ''pairing required'' ''bot.example'' = ''Pairing required. Visit https://bot.example/_admin/''"
    using T [of json_codec "''pong''" _ _ "''pairing required''" "''bot.example''"] i3 by simp
  have d: "transformErrorMessage ''rate limited'' ''bot.example'' = ''rate limited''"
    using T [of json_codec "''pong''" _ _ "''rate limited''" "''bot.example''"] i4 by simp
  have e: "on_container_message json_codec ''bot.example'' True (Text ''pong'') = [Text ''pong'']"
    using T [of json_codec "''pong''" _ _ _ "''bot.example''"] p2 by simp
  have f: \<open>on_container_message json_codec ''bot.example'' True (Text ''{"type":"res","ok":true}'')
      = [Text ''{"type":"res","ok":true}'']\<close>
    using T [of json_codec \<open>''{"type":"res","ok":true}''\<close> _ _ _ "''bot.example''"] p3 by simp
  have g: \<open>on_container_message json_codec ''bot.example'' False (Text ''{"type":"res","ok":true}'') = []\<close>
    using T [of json_codec "''pong''" _ _ _ "''bot.example''" _ \<open>Text ''{"type":"res","ok":true}''\<close>] by simp
  show ?thesis using p1 p2 p3 a b c d e f g by simp
qed

lemma cap_reason_length: "length (cap_reason r) \<le> 123"
  by (simp add: cap_reason_def)

text \<open>
  Claim C6, as amended. A close of the client leg closes the backend leg with the same code
  and the same reason, unchanged. A close of the backend leg closes the client leg with the
  same code and the reason passed through \<open>transformErrorMessage\<close> and then cut to at most
  123 characters (the first 120 and three dots when it is longer). An error on the client
  leg closes the backend leg, and an error on the backend leg the client leg, with code 1011.
\<close>

theorem close_and_error_propagation:
  "on_client_close code reason = Close BackendLeg code reason
   \<and> on_container_close host code reason = Close ClientLeg code (cap_reason (transformErrorMessage reason host))
   \<and> length (cap_reason (transformErrorMessage reason host)) \<le> 123
   \<and> (length (transformErrorMessage reason host) \<le> 123 \<longrightarrow>
        cap_reason (transformErrorMessage reason host) = transformErrorMessage reason host)
   \<and> (length (transformErrorMessage reason host) > 123 \<longrightarrow>
        cap_reason (transformErrorMessage reason host) = take 120 (transformErrorMessage reason host) @ ''...'')
   \<and> on_client_error = Close BackendLeg 1011 ''Client error''
   \<and> on_container_error = Close ClientLeg 1011 ''Container error''"
  by (simp add: on_client_close_def on_container_close_def on_client_error_def on_container_error_def cap_reason_def)

text \<open>Claim C6 as amended, on a short reason and on a host long enough for the cut.\<close>

theorem close_and_error_propagation_witness:
  "on_client_close 1000 ''bye'' = Close BackendLeg 1000 ''bye''
   \<and> on_container_close ''bot.example'' 1008 ''pairing required''
        = Close ClientLeg 1008 ''Pairing required. Visit https://bot.example/_admin/''
   \<and> length (transformErrorMessage ''pairing required'' ''bot.example'') \<le> 123
   \<and> length (transformErrorMessage ''pairing required'' long_host) > 123
   \<and> on_container_close long_host 1008 ''pairing required''
        = Close ClientLeg 1008 (take 120 (''Pairing required. Visit https://'' @ long_host @ ''/_admin/'') @ ''...'')"
proof -
  have t1: "transformErrorMessage ''pairing required'' ''bot.example'' = ''Pairing required. Visit https://bot.example/_admin/''"
    by (simp add: transformErrorMessage_def pairing_hint_def)
  have t2: "transformErrorMessage ''pairing required'' long_host = ''Pairing required. Visit https://'' @ long_host @ ''/_admin/''"
    by (simp add: transformErrorMessage_def pairing_hint_def)
  have l1: "length (transformErrorMessage ''pairing required'' ''bot.example'') \<le> 123"
    by (simp add: t1)
  have l2: "length (transformErrorMessage ''pairing required'' long_host) > 123"
    unfolding t2 by (simp add: long_host_def)
  show ?thesis
    using close_and_error_propagation [of 1000 "''bye''" "''bot.example''"]
      close_and_error_propagation [of 1008 "''pairing required''" "''bot.example''"]
      close_and_error_propagation [of 1008 "''pairing required''" long_host]
      l1 l2 t1 t2
    by simp
qed

text \<open>
  Claim C6 as stated fails: the client closes with the reason \<^verbatim>\<open>pairing required\<close>, and
  the backend leg is closed with that very text, not with the text the substitution table
  gives for it.
\<close>

theorem client_close_reason_not_transformed:
  "on_client_close 1008 ''pairing required''
     \<noteq> Close BackendLeg 1008 (cap_reason (transformErrorMessage ''pairing required'' ''bot.example''))"
  by (simp add: on_client_close_def transformErrorMessage_def pairing_hint_def cap_reason_def)

lemma connect_without_params_verbatim:
  assumes "tok \<noteq> []" and "JSON_parse cdc s = Some (JObj kvs)"
    and "map_of kvs ''type'' = Some (JStr ''req'')" and "map_of kvs ''method'' = Some (JStr ''connect'')"
    and "map_of kvs ''params'' = None"
  shows "on_client_message cdc (Some tok) True (Text s) = [Text s]"
  using assms by (simp add: on_client_message_def try_connect_def connect_body_def send_if_open_def)

text \<open>
  Claim C3, evaluated. With the token \<^verbatim>\<open>S\<close> configured and the backend socket open, the
  connect request without \<^verbatim>\<open>params\<close> parses to an object of type \<^verbatim>\<open>req\<close> and
  method \<^verbatim>\<open>connect\<close>, and is sent to the backend as it came, without any \<^verbatim>\<open>auth\<close>.
\<close>

theorem connect_without_params_not_rewritten:
  \<open>JSON_parse json_codec ''{"type":"req","method":"connect"}''
      = Some (JObj [(''type'', JStr ''req''), (''method'', JStr ''connect'')])
   \<and> on_client_message json_codec (Some ''S'') True (Text ''{"type":"req","method":"connect"}'')
      = [Text ''{"type":"req","method":"connect"}'']\<close>
  by (simp add: on_client_message_def try_connect_def connect_body_def send_if_open_def codec_simps)

text \<open>
  Claim C4 as stated fails: in a session of three frames the third, a connect request that
  comes after the first one, is rewritten too, so that what is sent for it is not what came.
\<close>

theorem later_connect_frame_also_rewritten:
  "relay_client json_codec (Some ''S'') [(True, Text connect_frame), (True, Text ''ping''), (True, Text connect_frame)]
     = [Text rewritten_frame, Text ''ping'', Text rewritten_frame]
   \<and> relay_client json_codec (Some ''S'') [(True, Text connect_frame), (True, Text ''ping''), (True, Text connect_frame)] ! 2
     \<noteq> Text connect_frame"
  by (simp add: relay_client_def on_client_message_def try_connect_def connect_body_def strip_and_inject_def
      send_if_open_def codec_simps connect_frame_def rewritten_frame_def)

text \<open>Claim C4 as amended, on a session with a connect request in third place, and without a token.\<close>

theorem client_frames_rewritten_or_verbatim_witness:
  \<open>is_connect_request json_codec (Text connect_frame)
   \<and> \<not> is_connect_request json_codec (Text ''ping'')
   \<and> \<not> is_connect_request json_codec (Text ''{"type":"req","method":"chat.send","params":{"deviceId":"x"}}'')
   \<and> \<not> is_connect_request json_codec (Binary [1, 2, 3])
   \<and> relay_client json_codec (Some ''S'')
        (map (Pair True) [Text ''ping'', Binary [1, 2, 3], Text connect_frame,
                          Text ''{"type":"req","method":"chat.send","params":{"deviceId":"x"}}''])
      = [Text ''ping'', Binary [1, 2, 3], Text rewritten_frame,
         Text ''{"type":"req","method":"chat.send","params":{"deviceId":"x"}}'']
   \<and> relay_client json_codec None (map (Pair True) [Text connect_frame]) = [Text connect_frame]\<close>
proof -
  let ?chat = \<open>''{"type":"req","method":"chat.send","params":{"deviceId":"x"}}''\<close>
  let ?fs = "[Text ''ping'', Binary [1, 2, 3], Text connect_frame, Text ?chat]"
  let ?out = "relay_client json_codec (Some ''S'') (map (Pair True) ?fs)"
  have p: "JSON_parse json_codec connect_frame = Some (JObj [(''type'', JStr ''req''), (''method'', JStr ''connect''),
     (''params'', JObj [(''deviceId'', JStr ''x''), (''signature'', JStr ''y'')])])"
    by (simp add: json_codec_def parse_connect_frame)
  have c1: "is_connect_request json_codec (Text connect_frame)"
    by (simp add: is_connect_request_def p)
  have c2: "\<not> is_connect_request json_codec (Text ''ping'')"
    by (simp add: is_connect_request_def codec_simps)
  have c3: "\<not> is_connect_request json_codec (Text ?chat)"
    by (simp add: is_connect_request_def codec_simps)
  have c4: "\<not> is_connect_request json_codec (Binary [1, 2, 3])"
    by (simp add: is_connect_request_def)
  have s: "JSON_stringify json_codec (JObj [(''type'', JStr ''req''), (''method'', JStr ''connect''),
     (''params'', JObj [(''auth'', JObj [(''token'', JStr ''S'')])])]) = rewritten_frame"
    by (simp add: codec_simps rewritten_frame_def)
  let ?kvs = "[(''type'', JStr ''req''), (''method'', JStr ''connect''),
                (''params'', JObj [(''deviceId'', JStr ''x''), (''signature'', JStr ''y'')])]"
  let ?pkvs = "[(''deviceId'', JStr ''x''), (''signature'', JStr ''y'')]"
  have len: "length ?out = 4"
    using client_frames_rewritten_or_verbatim [of json_codec "Some ''S''" ?fs] by simp
  have o0: "?out ! 0 = Text ''ping''"
    using client_frames_rewritten_or_verbatim [of json_codec "Some ''S''" ?fs 0] c2 by simp
  have o1: "?out ! 1 = Binary [1, 2, 3]"
    using client_frames_rewritten_or_verbatim [of json_codec "Some ''S''" ?fs 1] c4 by simp
  have o3: "?out ! 3 = Text ?chat"
    using client_frames_rewritten_or_verbatim [of json_codec "Some ''S''" ?fs 3] c3 by simp
  have o2: "?out ! 2 = Text rewritten_frame"
    using client_frames_rewritten_or_verbatim [of json_codec "Some ''S''" ?fs 2 "''S''" connect_frame ?kvs "JObj ?pkvs" ?pkvs]
      p s by simp
  have out: "?out = [Text ''ping'', Binary [1, 2, 3], Text rewritten_frame, Text ?chat]"
  proof (rule nth_equalityI)
    show "length ?out = length [Text ''ping'', Binary [1, 2, 3], Text rewritten_frame, Text ?chat]"
      using len by simp
  next
    fix i assume "i < length ?out"
    then have "i = 0 \<or> i = 1 \<or> i = 2 \<or> i = 3" using len by auto
    then show "?out ! i = [Text ''ping'', Binary [1, 2, 3], Text rewritten_frame, Text ?chat] ! i"
      using o0 o1 o2 o3 by auto
  qed
  have n0: "relay_client json_codec None (map (Pair True) [Text connect_frame]) ! 0 = Text connect_frame"
    using client_frames_rewritten_or_verbatim [of json_codec None "[Text connect_frame]" 0] by simp
  have n1: "length (relay_client json_codec None (map (Pair True) [Text connect_frame])) = 1"
    using client_frames_rewritten_or_verbatim [of json_codec None "[Text connect_frame]"] by simp
  have n: "relay_client json_codec None (map (Pair True) [Text connect_frame]) = [Text connect_frame]"
    using n0 n1 by (cases "relay_client json_codec None (map (Pair True) [Text connect_frame])") auto
  show ?thesis using c1 c2 c3 c4 out n by simp
qed

end
